theory Spec2Isabelle
  imports Complex_Main "HOL-Library.AList" "HOL-Library.Monad_Syntax"
begin

section \<open>Decoded JSON values\<close>

text \<open>
  The client never sees raw bytes: every body it handles is what \<^verbatim>\<open>res.json()\<close>
  returned, a Python value built from \<^verbatim>\<open>None\<close>, \<^verbatim>\<open>bool\<close>, \<^verbatim>\<open>int\<close>, \<^verbatim>\<open>float\<close>, \<^verbatim>\<open>str\<close>,
  \<^verbatim>\<open>list\<close> and \<^verbatim>\<open>dict\<close>. A JSON numeral without fraction or exponent is a Python \<^verbatim>\<open>int\<close>,
  of any size. Every other numeral is a \<^verbatim>\<open>float\<close>: \<open>Finite r\<close> is a finite float of
  value \<open>r\<close> (the doubles are among them, and no definition depends on \<open>r\<close> being one;
  the comparisons of the range checks are exact on the value), and the decoder also
  yields the two infinities and \<^verbatim>\<open>nan\<close>. A \<^verbatim>\<open>dict\<close> is an association list in insertion
  order, read with \<open>map_of\<close>.
\<close>

datatype pyfloat = Finite rat | PosInf | NegInf | NaN

datatype json =
    JNull
  | JBool bool
  | JInt int
  | JFloat pyfloat
  | JStr string
  | JArr "json list"
  | JObj "(string \<times> json) list"

section \<open>errors.py\<close>

datatype error_cls =
    XeroMLError
  | InvalidAPIKeyError
  | CreditsExhaustedError
  | RateLimitedError
  | ParseFailedError
  | SessionNotFoundError
  | SessionEndedError

text \<open>An instance of \<^verbatim>\<open>XeroMLError\<close> or of one of its subclasses: its class and the four
  attributes \<^verbatim>\<open>XeroMLError.__init__\<close> stores. \<^verbatim>\<open>None\<close> is \<open>JNull\<close>.\<close>

record xeroml_error =
  cls :: error_cls
  code :: json
  status :: int
  message :: json
  details :: json

text \<open>Whatever a call can raise. The Python built-ins are the ones the client's own
  expressions raise on a body of the wrong shape; \<open>ValidationError\<close> is pydantic's,
  \<open>JSONDecodeError\<close> is \<^verbatim>\<open>res.json()\<close> on a body that is not JSON, \<open>TransportError\<close> is
  anything the HTTP library raises before there is a response, \<open>ImportError x\<close> is
  \<^verbatim>\<open>from m import x\<close> when module \<open>m\<close> binds no name \<open>x\<close>.\<close>

datatype py_exn =
    Raised xeroml_error
  | AttributeError
  | TypeError
  | KeyError
  | ValidationError
  | JSONDecodeError
  | TransportError
  | ImportError string

text \<open>\<^verbatim>\<open>d.get(key, default)\<close> on a \<^verbatim>\<open>dict\<close>.\<close>

definition dict_get :: "(string \<times> json) list \<Rightarrow> string \<Rightarrow> json \<Rightarrow> json" where
  "dict_get kvs k d = (case map_of kvs k of None \<Rightarrow> d | Some v \<Rightarrow> v)"

text \<open>\<^verbatim>\<open>x.get(key, default)\<close> on any decoded value: only a \<^verbatim>\<open>dict\<close> has the method.\<close>

fun py_get :: "json \<Rightarrow> string \<Rightarrow> json \<Rightarrow> py_exn + json" where
  "py_get (JObj kvs) k d = Inr (dict_get kvs k d)"
| "py_get _ k d = Inl AttributeError"

text \<open>The constructors. \<open>None\<close> for the message is the argument left out, so that the
  class's own default applies.\<close>

definition XeroMLError_init :: "json \<Rightarrow> int \<Rightarrow> json \<Rightarrow> json \<Rightarrow> xeroml_error" where
  "XeroMLError_init c s m d =
     \<lparr>cls = XeroMLError, code = c, status = s, message = m, details = d\<rparr>"

definition InvalidAPIKeyError_init :: "json option \<Rightarrow> json \<Rightarrow> xeroml_error" where
  "InvalidAPIKeyError_init m d =
     (XeroMLError_init (JStr ''invalid_api_key'') 401
        (case m of None \<Rightarrow> JStr ''Invalid or revoked API key.'' | Some x \<Rightarrow> x) d)
     \<lparr>cls := InvalidAPIKeyError\<rparr>"

definition CreditsExhaustedError_init :: "json option \<Rightarrow> json \<Rightarrow> xeroml_error" where
  "CreditsExhaustedError_init m d =
     (XeroMLError_init (JStr ''credits_exhausted'') 402
        (case m of None \<Rightarrow> JStr ''Credits exhausted.'' | Some x \<Rightarrow> x) d)
     \<lparr>cls := CreditsExhaustedError\<rparr>"

definition RateLimitedError_init :: "json option \<Rightarrow> json \<Rightarrow> xeroml_error" where
  "RateLimitedError_init m d =
     (XeroMLError_init (JStr ''rate_limited'') 429
        (case m of None \<Rightarrow> JStr ''Rate limit exceeded.'' | Some x \<Rightarrow> x) d)
     \<lparr>cls := RateLimitedError\<rparr>"

definition ParseFailedError_init :: "json option \<Rightarrow> json \<Rightarrow> xeroml_error" where
  "ParseFailedError_init m d =
     (XeroMLError_init (JStr ''parse_failed'') 422
        (case m of None \<Rightarrow> JStr ''Parse failed.'' | Some x \<Rightarrow> x) d)
     \<lparr>cls := ParseFailedError\<rparr>"

definition SessionNotFoundError_init :: "json option \<Rightarrow> json \<Rightarrow> xeroml_error" where
  "SessionNotFoundError_init m d =
     (XeroMLError_init (JStr ''session_not_found'') 404
        (case m of None \<Rightarrow> JStr ''Session not found.'' | Some x \<Rightarrow> x) d)
     \<lparr>cls := SessionNotFoundError\<rparr>"

definition SessionEndedError_init :: "json option \<Rightarrow> json \<Rightarrow> xeroml_error" where
  "SessionEndedError_init m d =
     (XeroMLError_init (JStr ''session_ended'') 409
        (case m of None \<Rightarrow> JStr ''Session is already completed.'' | Some x \<Rightarrow> x) d)
     \<lparr>cls := SessionEndedError\<rparr>"

text \<open>\<^verbatim>\<open>_ERROR_MAP\<close>, in the order the dictionary is written.\<close>

definition ERROR_MAP :: "(int \<times> error_cls) list" where
  "ERROR_MAP =
     [(401, InvalidAPIKeyError), (402, CreditsExhaustedError), (429, RateLimitedError),
      (422, ParseFailedError), (404, SessionNotFoundError), (409, SessionEndedError)]"

text \<open>\<^verbatim>\<open>error_cls(message=message, details=details)\<close> for a class taken from the map.
  The base class is never called this way (it has no default for \<^verbatim>\<open>code\<close> and
  \<^verbatim>\<open>status\<close>): \<open>raise_for_status\<close> tests for it first.\<close>

fun construct :: "error_cls \<Rightarrow> json \<Rightarrow> json \<Rightarrow> py_exn" where
  "construct XeroMLError m d = TypeError"
| "construct InvalidAPIKeyError m d = Raised (InvalidAPIKeyError_init (Some m) d)"
| "construct CreditsExhaustedError m d = Raised (CreditsExhaustedError_init (Some m) d)"
| "construct RateLimitedError m d = Raised (RateLimitedError_init (Some m) d)"
| "construct ParseFailedError m d = Raised (ParseFailedError_init (Some m) d)"
| "construct SessionNotFoundError m d = Raised (SessionNotFoundError_init (Some m) d)"
| "construct SessionEndedError m d = Raised (SessionEndedError_init (Some m) d)"

text \<open>\<^verbatim>\<open>raise_for_status\<close> never returns; the model returns what it raises.\<close>

definition raise_for_status :: "int \<Rightarrow> json \<Rightarrow> py_exn" where
  "raise_for_status status_code body =
     (case py_get body ''error'' body of
        Inl e \<Rightarrow> e
      | Inr error_data \<Rightarrow>
          (case py_get error_data ''message'' (JStr ''Unknown error'') of
             Inl e \<Rightarrow> e
           | Inr msg \<Rightarrow>
               (case py_get error_data ''details'' JNull of
                  Inl e \<Rightarrow> e
                | Inr dets \<Rightarrow>
                    (let error_cls =
                           (case map_of ERROR_MAP status_code of
                              None \<Rightarrow> XeroMLError
                            | Some c \<Rightarrow> c)
                     in if error_cls = XeroMLError
                        then (case py_get error_data ''code'' (JStr ''unknown'') of
                                Inl e \<Rightarrow> e
                              | Inr c \<Rightarrow> Raised (XeroMLError_init c status_code msg dets))
                        else construct error_cls msg dets))))"

text \<open>The two shapes of an error body (spec, section 6): the fields under an \<open>error\<close>
  object, or directly at the top level. \<open>error_fields\<close> gives the object that carries
  the fields; it is \<open>None\<close> for a body that is neither shape.\<close>

definition error_fields :: "json \<Rightarrow> (string \<times> json) list option" where
  "error_fields body =
     (case body of
        JObj kvs \<Rightarrow>
          (case map_of kvs ''error'' of
             None \<Rightarrow> Some kvs
           | Some (JObj ed) \<Rightarrow> Some ed
           | Some _ \<Rightarrow> None)
      | _ \<Rightarrow> None)"

section \<open>types.py\<close>

text \<open>
  The models are pydantic (version 2) classes: \<^verbatim>\<open>Model(**d)\<close> reads each declared field
  from the keyword arguments, takes the declared default for a field that is not there,
  validates a field that is there against its type and its \<^verbatim>\<open>Field\<close> constraints, ignores
  every other key, and raises \<open>ValidationError\<close> when a field is missing or invalid.

  \<^item> \<^verbatim>\<open>str\<close> accepts a string only.
  \<^item> \<^verbatim>\<open>float\<close> accepts every \<^verbatim>\<open>float\<close>, the infinities and \<^verbatim>\<open>nan\<close> included, and an \<^verbatim>\<open>int\<close>
    through \<^verbatim>\<open>float(n)\<close>: the nearest double, and a rejection when \<open>n\<close> is too large for
    one.
  \<^item> \<^verbatim>\<open>int\<close> accepts every \<^verbatim>\<open>int\<close>, and a finite \<^verbatim>\<open>float\<close> with no fractional part that
    lies strictly between \<open>-2^63\<close> and \<open>2^63\<close>.
  \<^item> \<^verbatim>\<open>bool\<close> accepts a boolean. Pydantic's lax mode also converts some values of
    another type (the string \<^verbatim>\<open>"0.5"\<close> for a \<^verbatim>\<open>float\<close>). Which ones is the library's
    business and not this repository's, so the conversions are a parameter \<open>L\<close> of the
    validators, consulted only for a value that is neither of the field's own type nor
    a number.
  \<^item> \<^verbatim>\<open>ge\<close> and \<^verbatim>\<open>le\<close> are checked on the converted float. An infinity fails one of
    them. \<^verbatim>\<open>nan\<close> compares false with every bound, and whether the check then lets it
    pass depends on which comparison the library makes: this too is a parameter.
  \<^item> A \<^verbatim>\<open>pattern\<close> of the form \<^verbatim>\<open>^(a|b|c)$\<close> is matched by pydantic's regex engine,
    for which \<^verbatim>\<open>$\<close> is the end of the input: the string matches when it is one of the
    alternatives.
  \<^item> \<^verbatim>\<open>list[T]\<close> accepts a list whose elements are all valid; a nested model accepts a
    \<^verbatim>\<open>dict\<close> that validates; \<^verbatim>\<open>T | None\<close> accepts \<^verbatim>\<open>None\<close> or a valid \<^verbatim>\<open>T\<close>.

  A validator returns \<open>None\<close> for an invalid value.
\<close>

text \<open>The library behaviour the repository's code does not decide: the conversions of
  lax mode, whether \<^verbatim>\<open>nan\<close> passes a \<^verbatim>\<open>ge\<close> or \<^verbatim>\<open>le\<close> bound, and \<^verbatim>\<open>str()\<close> of a value that
  is not a string (used where a session identifier is put into a path). Every theorem
  below holds for every \<open>L\<close>.\<close>

record pylib =
  lax_float :: "json \<Rightarrow> pyfloat option"
  lax_int :: "json \<Rightarrow> int option"
  lax_bool :: "json \<Rightarrow> bool option"
  nan_passes_bounds :: bool
  str_of :: "json \<Rightarrow> string"

text \<open>An instance for evaluating the models on concrete payloads whose values all have
  the type their field declares: nothing is converted, and \<open>str_of\<close> is never consulted
  (the session identifiers of the examples are strings).\<close>

definition no_conversion :: pylib where
  "no_conversion =
     \<lparr>lax_float = (\<lambda>v. None), lax_int = (\<lambda>v. None), lax_bool = (\<lambda>v. None),
      nan_passes_bounds = False, str_of = (\<lambda>v. [])\<rparr>"

definition str_v :: "json \<Rightarrow> string option" where
  "str_v v = (case v of JStr s \<Rightarrow> Some s | _ \<Rightarrow> None)"

definition str_pattern :: "string list \<Rightarrow> json \<Rightarrow> string option" where
  "str_pattern alts v =
     (case v of JStr s \<Rightarrow> (if s \<in> set alts then Some s else None) | _ \<Rightarrow> None)"

text \<open>\<^verbatim>\<open>n.bit_length()\<close> of a natural number.\<close>

fun bit_length :: "nat \<Rightarrow> nat" where
  "bit_length n = (if n = 0 then 0 else Suc (bit_length (n div 2)))"

declare bit_length.simps [simp del]

text \<open>\<^verbatim>\<open>float(n)\<close> of a Python \<^verbatim>\<open>int\<close>. \<open>nearest_double n\<close> is the integer the conversion
  rounds to: \<open>n\<close> itself when it has at most 53 bits, otherwise its leading 53 bits
  rounded to nearest, a tie going to the even mantissa. The conversion raises
  \<^verbatim>\<open>OverflowError\<close> (here \<open>None\<close>) when the result does not fit a double.\<close>

definition nearest_double :: "int \<Rightarrow> int" where
  "nearest_double n =
     (let a = nat \<bar>n\<bar>; e = bit_length a - 53
      in if e = 0 then n
         else (let q = a div 2 ^ e; r = a mod 2 ^ e; h = 2 ^ (e - 1);
                   q' = (if h < r \<or> (r = h \<and> odd q) then q + 1 else q)
               in sgn n * int (q' * 2 ^ e)))"

definition float_from_int :: "int \<Rightarrow> pyfloat option" where
  "float_from_int n =
     (let m = nearest_double n
      in if 2 ^ 1024 \<le> \<bar>m\<bar> then None else Some (Finite (of_int m)))"

definition float_v :: "pylib \<Rightarrow> json \<Rightarrow> pyfloat option" where
  "float_v L v =
     (case v of
        JFloat f \<Rightarrow> Some f
      | JInt n \<Rightarrow> float_from_int n
      | _ \<Rightarrow> lax_float L v)"

text \<open>A float field with \<^verbatim>\<open>ge\<close> and \<^verbatim>\<open>le\<close>.\<close>

definition float_ge_le :: "pylib \<Rightarrow> rat \<Rightarrow> rat \<Rightarrow> json \<Rightarrow> pyfloat option" where
  "float_ge_le L lo hi v =
     (case float_v L v of
        None \<Rightarrow> None
      | Some (Finite r) \<Rightarrow> (if lo \<le> r \<and> r \<le> hi then Some (Finite r) else None)
      | Some PosInf \<Rightarrow> None
      | Some NegInf \<Rightarrow> None
      | Some NaN \<Rightarrow> (if nan_passes_bounds L then Some NaN else None))"

definition int_v :: "pylib \<Rightarrow> json \<Rightarrow> int option" where
  "int_v L v =
     (case v of
        JInt n \<Rightarrow> Some n
      | JFloat (Finite r) \<Rightarrow>
          (if r = of_int \<lfloor>r\<rfloor> \<and> - (2 ^ 63) < r \<and> r < 2 ^ 63 then Some \<lfloor>r\<rfloor> else None)
      | JFloat _ \<Rightarrow> None
      | _ \<Rightarrow> lax_int L v)"

definition bool_v :: "pylib \<Rightarrow> json \<Rightarrow> bool option" where
  "bool_v L v = (case v of JBool b \<Rightarrow> Some b | _ \<Rightarrow> lax_bool L v)"

definition list_of :: "(json \<Rightarrow> 'a option) \<Rightarrow> json \<Rightarrow> 'a list option" where
  "list_of f v = (case v of JArr xs \<Rightarrow> those (map f xs) | _ \<Rightarrow> None)"

definition optional :: "(json \<Rightarrow> 'a option) \<Rightarrow> json \<Rightarrow> 'a option option" where
  "optional f v = (case v of JNull \<Rightarrow> Some None | _ \<Rightarrow> map_option Some (f v))"

text \<open>A field without a default, and a field with one.\<close>

definition required :: "(json \<Rightarrow> 'a option) \<Rightarrow> (string \<times> json) list \<Rightarrow> string \<Rightarrow> 'a option" where
  "required f kvs k = (case map_of kvs k of None \<Rightarrow> None | Some v \<Rightarrow> f v)"

definition with_default ::
  "'a \<Rightarrow> (json \<Rightarrow> 'a option) \<Rightarrow> (string \<times> json) list \<Rightarrow> string \<Rightarrow> 'a option" where
  "with_default d f kvs k = (case map_of kvs k of None \<Rightarrow> Some d | Some v \<Rightarrow> f v)"

text \<open>\<^verbatim>\<open>Model(**v)\<close>: the argument of \<^verbatim>\<open>**\<close> must be a mapping.\<close>

definition init_model :: "((string \<times> json) list \<Rightarrow> 'a option) \<Rightarrow> json \<Rightarrow> py_exn + 'a" where
  "init_model validate v =
     (case v of
        JObj kvs \<Rightarrow> (case validate kvs of None \<Rightarrow> Inl ValidationError | Some x \<Rightarrow> Inr x)
      | _ \<Rightarrow> Inl TypeError)"

text \<open>A nested model field: the value must be a \<^verbatim>\<open>dict\<close>.\<close>

definition nested :: "((string \<times> json) list \<Rightarrow> 'a option) \<Rightarrow> json \<Rightarrow> 'a option" where
  "nested validate v = (case v of JObj kvs \<Rightarrow> validate kvs | _ \<Rightarrow> None)"

subsection \<open>LatentStates\<close>

record LatentStates =
  goal_intent :: string
  action_readiness :: string
  ambiguity_level :: string
  risk_sensitivity :: string
  intent_scope :: string

definition validate_LatentStates :: "(string \<times> json) list \<Rightarrow> LatentStates option" where
  "validate_LatentStates kvs =
     required str_v kvs ''goal_intent'' \<bind> (\<lambda>gi.
     required (str_pattern [''exploring'', ''deciding'', ''executing'']) kvs ''action_readiness'' \<bind> (\<lambda>ar.
     required (str_pattern [''clear'', ''partial'', ''conflicting'']) kvs ''ambiguity_level'' \<bind> (\<lambda>al.
     required (str_pattern [''low'', ''medium'', ''high'']) kvs ''risk_sensitivity'' \<bind> (\<lambda>rs.
     required (str_pattern [''single'', ''compound'', ''multi_step'']) kvs ''intent_scope'' \<bind> (\<lambda>sc.
     Some \<lparr>goal_intent = gi, action_readiness = ar, ambiguity_level = al,
            risk_sensitivity = rs, intent_scope = sc\<rparr>)))))"

subsection \<open>IntentMeta\<close>

record IntentMeta =
  source :: string
  confidence :: pyfloat
  negotiation_history :: "string list"
  latent_states :: LatentStates

definition validate_IntentMeta :: "pylib \<Rightarrow> (string \<times> json) list \<Rightarrow> IntentMeta option" where
  "validate_IntentMeta L kvs =
     with_default ''user_input'' str_v kvs ''source'' \<bind> (\<lambda>src.
     required (float_ge_le L 0 1) kvs ''confidence'' \<bind> (\<lambda>c.
     with_default [] (list_of str_v) kvs ''negotiation_history'' \<bind> (\<lambda>nh.
     required (nested validate_LatentStates) kvs ''latent_states'' \<bind> (\<lambda>ls.
     Some \<lparr>source = src, confidence = c, negotiation_history = nh, latent_states = ls\<rparr>))))"

subsection \<open>SubGoal\<close>

datatype SubGoal = SubGoal
  (sg_id: string)
  (goal: string)
  (sg_status: string)
  (priority: pyfloat)
  (success_criteria: "string list")
  (constraints: "string list")
  (uncertainty: pyfloat)
  (context_requirements: "string list")
  (modality: string)
  (dependencies: "string list")
  (children: "SubGoal list")

text \<open>The value of a \<open>SubGoal\<close> field, or of an element of \<open>children\<close>: a \<^verbatim>\<open>dict\<close> that
  validates. The recursion is on the depth of the payload.\<close>

function (sequential) validate_SubGoal :: "pylib \<Rightarrow> json \<Rightarrow> SubGoal option" where
  "validate_SubGoal L (JObj kvs) =
     required str_v kvs ''id'' \<bind> (\<lambda>i.
     required str_v kvs ''goal'' \<bind> (\<lambda>g.
     with_default ''pending''
       (str_pattern [''pending'', ''active'', ''done'', ''blocked'', ''abandoned'', ''background''])
       kvs ''status'' \<bind> (\<lambda>st.
     required (float_ge_le L 0 1) kvs ''priority'' \<bind> (\<lambda>p.
     with_default [] (list_of str_v) kvs ''success_criteria'' \<bind> (\<lambda>sc.
     with_default [] (list_of str_v) kvs ''constraints'' \<bind> (\<lambda>cs.
     with_default (Finite (1 / 2)) (float_ge_le L 0 1) kvs ''uncertainty'' \<bind> (\<lambda>u.
     with_default [] (list_of str_v) kvs ''context_requirements'' \<bind> (\<lambda>cr.
     with_default ''text'' str_v kvs ''modality'' \<bind> (\<lambda>mo.
     with_default [] (list_of str_v) kvs ''dependencies'' \<bind> (\<lambda>ds.
     (case map_of kvs ''children'' of
        None \<Rightarrow> Some []
      | Some (JArr xs) \<Rightarrow> those (map (validate_SubGoal L) xs)
      | Some _ \<Rightarrow> None) \<bind> (\<lambda>ch.
     Some (SubGoal i g st p sc cs u cr mo ds ch))))))))))))"
| "validate_SubGoal L _ = None"
  by pat_completeness auto
termination
proof -
  have field_smaller:
    "map_of kvs k = Some v \<Longrightarrow> size v < Suc (size_list (size_prod (\<lambda>_. 0) size) kvs)"
    for kvs :: "(string \<times> json) list" and k v
    by (induction kvs) (auto split: if_splits)
  have element_smaller: "x \<in> set xs \<Longrightarrow> size x < Suc (size_list size xs)"
    for x :: json and xs
    by (induction xs) auto
  show ?thesis
    by (relation "measure (\<lambda>(L, v). size v)")
       (auto dest!: field_smaller element_smaller)
qed

subsection \<open>IntentGraph\<close>

record IntentGraph =
  schema_version :: string
  root_goal :: string
  sub_goals :: "SubGoal list"
  meta :: IntentMeta

definition validate_IntentGraph :: "pylib \<Rightarrow> (string \<times> json) list \<Rightarrow> IntentGraph option" where
  "validate_IntentGraph L kvs =
     with_default ''0.1.0'' str_v kvs ''schema_version'' \<bind> (\<lambda>sv.
     required str_v kvs ''root_goal'' \<bind> (\<lambda>rg.
     required (list_of (validate_SubGoal L)) kvs ''sub_goals'' \<bind> (\<lambda>sgs.
     required (nested (validate_IntentMeta L)) kvs ''meta'' \<bind> (\<lambda>m.
     Some \<lparr>schema_version = sv, root_goal = rg, sub_goals = sgs, meta = m\<rparr>))))"

subsection \<open>ParseResponse\<close>

record ParseResponse =
  graph :: IntentGraph
  pr_session_id :: "string option"
  request_id :: string
  latency_ms :: int

definition validate_ParseResponse :: "pylib \<Rightarrow> (string \<times> json) list \<Rightarrow> ParseResponse option" where
  "validate_ParseResponse L kvs =
     required (nested (validate_IntentGraph L)) kvs ''graph'' \<bind> (\<lambda>g.
     with_default None (optional str_v) kvs ''session_id'' \<bind> (\<lambda>sid.
     required str_v kvs ''request_id'' \<bind> (\<lambda>rid.
     required (int_v L) kvs ''latency_ms'' \<bind> (\<lambda>ms.
     Some \<lparr>graph = g, pr_session_id = sid, request_id = rid, latency_ms = ms\<rparr>))))"

subsection \<open>DriftReport\<close>

record DriftReport =
  detected :: bool
  drift_type :: "string option"
  severity :: "pyfloat option"
  description :: "string option"
  previous_goal :: "string option"
  current_goal :: "string option"

definition validate_DriftReport :: "pylib \<Rightarrow> (string \<times> json) list \<Rightarrow> DriftReport option" where
  "validate_DriftReport L kvs =
     required (bool_v L) kvs ''detected'' \<bind> (\<lambda>dt.
     with_default None (optional str_v) kvs ''drift_type'' \<bind> (\<lambda>ty.
     with_default None (optional (float_v L)) kvs ''severity'' \<bind> (\<lambda>sev.
     with_default None (optional str_v) kvs ''description'' \<bind> (\<lambda>de.
     with_default None (optional str_v) kvs ''previous_goal'' \<bind> (\<lambda>pg.
     with_default None (optional str_v) kvs ''current_goal'' \<bind> (\<lambda>cg.
     Some \<lparr>detected = dt, drift_type = ty, severity = sev, description = de,
            previous_goal = pg, current_goal = cg\<rparr>))))))"

subsection \<open>SessionInfo\<close>

record SessionInfo =
  si_session_id :: string
  si_status :: string
  turn_count :: int
  created_at :: string
  updated_at :: string

definition validate_SessionInfo :: "pylib \<Rightarrow> (string \<times> json) list \<Rightarrow> SessionInfo option" where
  "validate_SessionInfo L kvs =
     required str_v kvs ''session_id'' \<bind> (\<lambda>sid.
     required str_v kvs ''status'' \<bind> (\<lambda>st.
     required (int_v L) kvs ''turn_count'' \<bind> (\<lambda>tc.
     required str_v kvs ''created_at'' \<bind> (\<lambda>ca.
     required str_v kvs ''updated_at'' \<bind> (\<lambda>ua.
     Some \<lparr>si_session_id = sid, si_status = st, turn_count = tc,
            created_at = ca, updated_at = ua\<rparr>)))))"

subsection \<open>CreditInfo, UsageMonth, UsageInfo\<close>

record CreditInfo =
  used :: int
  total :: int
  remaining :: int

definition validate_CreditInfo :: "pylib \<Rightarrow> (string \<times> json) list \<Rightarrow> CreditInfo option" where
  "validate_CreditInfo L kvs =
     required (int_v L) kvs ''used'' \<bind> (\<lambda>u.
     required (int_v L) kvs ''total'' \<bind> (\<lambda>t.
     required (int_v L) kvs ''remaining'' \<bind> (\<lambda>r.
     Some \<lparr>used = u, total = t, remaining = r\<rparr>)))"

record UsageMonth =
  month :: string
  parse_calls :: int
  drift_checks :: int
  session_creates :: int
  total_latency_ms :: int

definition validate_UsageMonth :: "pylib \<Rightarrow> (string \<times> json) list \<Rightarrow> UsageMonth option" where
  "validate_UsageMonth L kvs =
     required str_v kvs ''month'' \<bind> (\<lambda>mo.
     required (int_v L) kvs ''parse_calls'' \<bind> (\<lambda>pc.
     required (int_v L) kvs ''drift_checks'' \<bind> (\<lambda>dc.
     required (int_v L) kvs ''session_creates'' \<bind> (\<lambda>sc.
     with_default 0 (int_v L) kvs ''total_latency_ms'' \<bind> (\<lambda>tl.
     Some \<lparr>month = mo, parse_calls = pc, drift_checks = dc, session_creates = sc,
            total_latency_ms = tl\<rparr>)))))"

record UsageInfo =
  credits :: CreditInfo
  tier :: string
  rate_limit :: int
  usage :: "UsageMonth list"

definition validate_UsageInfo :: "pylib \<Rightarrow> (string \<times> json) list \<Rightarrow> UsageInfo option" where
  "validate_UsageInfo L kvs =
     required (nested (validate_CreditInfo L)) kvs ''credits'' \<bind> (\<lambda>c.
     required str_v kvs ''tier'' \<bind> (\<lambda>t.
     required (int_v L) kvs ''rate_limit'' \<bind> (\<lambda>rl.
     with_default [] (list_of (nested (validate_UsageMonth L))) kvs ''usage'' \<bind> (\<lambda>us.
     Some \<lparr>credits = c, tier = t, rate_limit = rl, usage = us\<rparr>))))"

section \<open>The HTTP round trip\<close>

text \<open>
  What \<^verbatim>\<open>self._http.request(method, path, json=body)\<close> is given, and what it answers.
  The method is the field \<open>http_method\<close>. The \<^verbatim>\<open>json\<close> keyword is \<open>None\<close> when the call
  does not pass it. \<open>content\<close> is what
  \<^verbatim>\<open>res.json()\<close> decodes, \<open>None\<close> when the body is not JSON. The transport is a function
  from the request to the response, or to the exception raised when there is none.
  Every operation performs one round trip; the model returns the request sent together
  with the operation's result.
\<close>

record request =
  http_method :: string
  path :: string
  json_body :: "json option"

record response =
  status_code :: int
  content :: "json option"

type_synonym transport = "request \<Rightarrow> py_exn + response"

definition is_success :: "response \<Rightarrow> bool" where
  "is_success res = (200 \<le> status_code res \<and> status_code res \<le> 299)"

definition res_json :: "response \<Rightarrow> py_exn + json" where
  "res_json res = (case content res of None \<Rightarrow> Inl JSONDecodeError | Some v \<Rightarrow> Inr v)"

text \<open>\<^verbatim>\<open>x[key]\<close> with a string key: \<open>KeyError\<close> on a \<^verbatim>\<open>dict\<close> without the key,
  \<open>TypeError\<close> on anything that is not a \<^verbatim>\<open>dict\<close>.\<close>

fun py_getitem :: "json \<Rightarrow> string \<Rightarrow> py_exn + json" where
  "py_getitem (JObj kvs) k = (case map_of kvs k of None \<Rightarrow> Inl KeyError | Some v \<Rightarrow> Inr v)"
| "py_getitem _ k = Inl TypeError"

text \<open>\<^verbatim>\<open>for s in x\<close>: a list gives its elements, a \<^verbatim>\<open>dict\<close> its keys, a string its
  characters; nothing else is iterable.\<close>

fun py_iter :: "json \<Rightarrow> py_exn + json list" where
  "py_iter (JArr xs) = Inr xs"
| "py_iter (JObj kvs) = Inr (map (\<lambda>kv. JStr (fst kv)) kvs)"
| "py_iter (JStr s) = Inr (map (\<lambda>c. JStr [c]) s)"
| "py_iter _ = Inl TypeError"

text \<open>A list comprehension \<^verbatim>\<open>[f(s) for s in xs]\<close>: the first exception ends it.\<close>

fun comprehension :: "('a \<Rightarrow> py_exn + 'b) \<Rightarrow> 'a list \<Rightarrow> py_exn + 'b list" where
  "comprehension f [] = Inr []"
| "comprehension f (x # xs) =
     (case f x of
        Inl e \<Rightarrow> Inl e
      | Inr y \<Rightarrow> (case comprehension f xs of Inl e \<Rightarrow> Inl e | Inr ys \<Rightarrow> Inr (y # ys)))"

text \<open>An f-string field \<^verbatim>\<open>{x}\<close>: a string as it is, anything else through \<^verbatim>\<open>str()\<close>.\<close>

definition fmt :: "pylib \<Rightarrow> json \<Rightarrow> string" where
  "fmt L v = (case v of JStr s \<Rightarrow> s | _ \<Rightarrow> str_of L v)"

section \<open>client.py\<close>

text \<open>\<^verbatim>\<open>XeroML._request\<close>.\<close>

definition client_request ::
  "transport \<Rightarrow> string \<Rightarrow> string \<Rightarrow> json option \<Rightarrow> request \<times> (py_exn + response)" where
  "client_request http m p b =
     (let rq = \<lparr>http_method = m, path = p, json_body = b\<rparr> in
      (rq,
       case http rq of
         Inl e \<Rightarrow> Inl e
       | Inr res \<Rightarrow>
           if \<not> is_success res
           then (case res_json res of
                   Inl e \<Rightarrow> Inl e
                 | Inr body \<Rightarrow> Inl (raise_for_status (status_code res) body))
           else Inr res))"

text \<open>The handle \<^verbatim>\<open>Session(self, sid)\<close>. Its client is the transport the operations are
  given; \<open>session_id\<close> is whatever value the constructor was passed.\<close>

datatype Session = Session (session_id: json)

definition parse ::
  "pylib \<Rightarrow> transport \<Rightarrow> string \<Rightarrow> string option \<Rightarrow> request \<times> (py_exn + IntentGraph)" where
  "parse L http msg provider =
     (let body = [(''message'', JStr msg)];
          body = (case provider of None \<Rightarrow> body | Some p \<Rightarrow> body @ [(''provider'', JStr p)]);
          (rq, r) = client_request http ''POST'' ''/v1/parse'' (Some (JObj body))
      in (rq,
          case r of
            Inl e \<Rightarrow> Inl e
          | Inr res \<Rightarrow>
              (case res_json res of
                 Inl e \<Rightarrow> Inl e
               | Inr data \<Rightarrow>
                   (case py_get data ''graph'' data of
                      Inl e \<Rightarrow> Inl e
                    | Inr g \<Rightarrow> init_model (validate_IntentGraph L) g))))"

definition create_session ::
  "transport \<Rightarrow> string option \<Rightarrow> request \<times> (py_exn + Session)" where
  "create_session http sid_arg =
     (let body = (case sid_arg of None \<Rightarrow> [] | Some i \<Rightarrow> [(''session_id'', JStr i)]);
          (rq, r) = client_request http ''POST'' ''/v1/sessions'' (Some (JObj body))
      in (rq,
          case r of
            Inl e \<Rightarrow> Inl e
          | Inr res \<Rightarrow>
              (case res_json res of
                 Inl e \<Rightarrow> Inl e
               | Inr data \<Rightarrow>
                   (case py_getitem data ''session_id'' of
                      Inl e \<Rightarrow> Inl e
                    | Inr sid \<Rightarrow> Inr (Session sid)))))"

definition list_sessions ::
  "pylib \<Rightarrow> transport \<Rightarrow> request \<times> (py_exn + SessionInfo list)" where
  "list_sessions L http =
     (let (rq, r) = client_request http ''GET'' ''/v1/sessions'' None
      in (rq,
          case r of
            Inl e \<Rightarrow> Inl e
          | Inr res \<Rightarrow>
              (case res_json res of
                 Inl e \<Rightarrow> Inl e
               | Inr data \<Rightarrow>
                   (case py_get data ''sessions'' data of
                      Inl e \<Rightarrow> Inl e
                    | Inr ss \<Rightarrow>
                        (case py_iter ss of
                           Inl e \<Rightarrow> Inl e
                         | Inr xs \<Rightarrow> comprehension (init_model (validate_SessionInfo L)) xs)))))"

definition get_usage :: "pylib \<Rightarrow> transport \<Rightarrow> request \<times> (py_exn + UsageInfo)" where
  "get_usage L http =
     (let (rq, r) = client_request http ''GET'' ''/v1/usage'' None
      in (rq,
          case r of
            Inl e \<Rightarrow> Inl e
          | Inr res \<Rightarrow>
              (case res_json res of
                 Inl e \<Rightarrow> Inl e
               | Inr data \<Rightarrow> init_model (validate_UsageInfo L) data)))"

section \<open>session.py: Session\<close>

text \<open>\<^verbatim>\<open>Session._request\<close> hands the call to its client's \<^verbatim>\<open>_request\<close>.\<close>

definition session_request ::
  "transport \<Rightarrow> string \<Rightarrow> string \<Rightarrow> json option \<Rightarrow> request \<times> (py_exn + response)" where
  "session_request http m p b = client_request http m p b"

definition session_parse ::
  "pylib \<Rightarrow> transport \<Rightarrow> Session \<Rightarrow> string \<Rightarrow> string option \<Rightarrow> request \<times> (py_exn + IntentGraph)" where
  "session_parse L http self msg provider =
     (let body = [(''message'', JStr msg)];
          body = (case provider of None \<Rightarrow> body | Some p \<Rightarrow> body @ [(''provider'', JStr p)]);
          (rq, r) = session_request http ''POST''
                      (''/v1/sessions/'' @ fmt L (session_id self) @ ''/parse'') (Some (JObj body))
      in (rq,
          case r of
            Inl e \<Rightarrow> Inl e
          | Inr res \<Rightarrow>
              (case res_json res of
                 Inl e \<Rightarrow> Inl e
               | Inr data \<Rightarrow>
                   (case py_get data ''graph'' data of
                      Inl e \<Rightarrow> Inl e
                    | Inr g \<Rightarrow> init_model (validate_IntentGraph L) g))))"

text \<open>\<open>role\<close> is \<open>None\<close> when the caller leaves the argument out.\<close>

definition session_update ::
  "pylib \<Rightarrow> transport \<Rightarrow> Session \<Rightarrow> string \<Rightarrow> string option \<Rightarrow> request \<times> (py_exn + unit)" where
  "session_update L http self resp role =
     (let role = (case role of None \<Rightarrow> ''assistant'' | Some r \<Rightarrow> r);
          (rq, r) = session_request http ''POST''
                      (''/v1/sessions/'' @ fmt L (session_id self) @ ''/update'')
                      (Some (JObj [(''response'', JStr resp), (''role'', JStr role)]))
      in (rq, case r of Inl e \<Rightarrow> Inl e | Inr res \<Rightarrow> Inr ()))"

definition session_check_drift ::
  "pylib \<Rightarrow> transport \<Rightarrow> Session \<Rightarrow> request \<times> (py_exn + DriftReport)" where
  "session_check_drift L http self =
     (let (rq, r) = session_request http ''GET''
                      (''/v1/sessions/'' @ fmt L (session_id self) @ ''/drift'') None
      in (rq,
          case r of
            Inl e \<Rightarrow> Inl e
          | Inr res \<Rightarrow>
              (case res_json res of
                 Inl e \<Rightarrow> Inl e
               | Inr data \<Rightarrow> init_model (validate_DriftReport L) data)))"

definition session_get_graph ::
  "pylib \<Rightarrow> transport \<Rightarrow> Session \<Rightarrow> request \<times> (py_exn + IntentGraph)" where
  "session_get_graph L http self =
     (let (rq, r) = session_request http ''GET''
                      (''/v1/sessions/'' @ fmt L (session_id self) @ ''/graph'') None
      in (rq,
          case r of
            Inl e \<Rightarrow> Inl e
          | Inr res \<Rightarrow>
              (case res_json res of
                 Inl e \<Rightarrow> Inl e
               | Inr data \<Rightarrow>
                   (case py_get data ''graph'' data of
                      Inl e \<Rightarrow> Inl e
                    | Inr g \<Rightarrow> init_model (validate_IntentGraph L) g))))"

definition session_end ::
  "pylib \<Rightarrow> transport \<Rightarrow> Session \<Rightarrow> request \<times> (py_exn + unit)" where
  "session_end L http self =
     (let (rq, r) = session_request http ''POST''
                      (''/v1/sessions/'' @ fmt L (session_id self) @ ''/end'') (Some (JObj []))
      in (rq, case r of Inl e \<Rightarrow> Inl e | Inr res \<Rightarrow> Inr ()))"

section \<open>session.py: AsyncSession; async_client.py\<close>

text \<open>
  The coroutines of the asynchronous client. \<^verbatim>\<open>await e\<close> has the value of \<open>e\<close>; the
  transport is the same function, awaited. Scheduling (what else runs while a call is
  suspended) is not part of the model. The definitions below are read from
  \<^verbatim>\<open>async_client.py\<close> and from \<^verbatim>\<open>class AsyncSession\<close>, not from their synchronous twins.
\<close>

datatype AsyncSession = AsyncSession (async_session_id: json)

text \<open>\<^verbatim>\<open>AsyncXeroML._request\<close>.\<close>

definition async_client_request ::
  "transport \<Rightarrow> string \<Rightarrow> string \<Rightarrow> json option \<Rightarrow> request \<times> (py_exn + response)" where
  "async_client_request http m p b =
     (let rq = \<lparr>http_method = m, path = p, json_body = b\<rparr> in
      (rq,
       case http rq of
         Inl e \<Rightarrow> Inl e
       | Inr res \<Rightarrow>
           if \<not> is_success res
           then (case res_json res of
                   Inl e \<Rightarrow> Inl e
                 | Inr body \<Rightarrow> Inl (raise_for_status (status_code res) body))
           else Inr res))"


text \<open>\<^verbatim>\<open>AsyncSession._request\<close> awaits its client's \<^verbatim>\<open>_request\<close>.\<close>

definition async_session_request ::
  "transport \<Rightarrow> string \<Rightarrow> string \<Rightarrow> json option \<Rightarrow> request \<times> (py_exn + response)" where
  "async_session_request http m p b = async_client_request http m p b"

definition async_session_parse ::
  "pylib \<Rightarrow> transport \<Rightarrow> AsyncSession \<Rightarrow> string \<Rightarrow> string option \<Rightarrow> request \<times> (py_exn + IntentGraph)" where
  "async_session_parse L http self msg provider =
     (let body = [(''message'', JStr msg)];
          body = (case provider of None \<Rightarrow> body | Some p \<Rightarrow> body @ [(''provider'', JStr p)]);
          (rq, r) = async_session_request http ''POST''
                      (''/v1/sessions/'' @ fmt L (async_session_id self) @ ''/parse'') (Some (JObj body))
      in (rq,
          case r of
            Inl e \<Rightarrow> Inl e
          | Inr res \<Rightarrow>
              (case res_json res of
                 Inl e \<Rightarrow> Inl e
               | Inr data \<Rightarrow>
                   (case py_get data ''graph'' data of
                      Inl e \<Rightarrow> Inl e
                    | Inr g \<Rightarrow> init_model (validate_IntentGraph L) g))))"

definition async_session_update ::
  "pylib \<Rightarrow> transport \<Rightarrow> AsyncSession \<Rightarrow> string \<Rightarrow> string option \<Rightarrow> request \<times> (py_exn + unit)" where
  "async_session_update L http self resp role =
     (let role = (case role of None \<Rightarrow> ''assistant'' | Some r \<Rightarrow> r);
          (rq, r) = async_session_request http ''POST''
                      (''/v1/sessions/'' @ fmt L (async_session_id self) @ ''/update'')
                      (Some (JObj [(''response'', JStr resp), (''role'', JStr role)]))
      in (rq, case r of Inl e \<Rightarrow> Inl e | Inr res \<Rightarrow> Inr ()))"

definition async_session_check_drift ::
  "pylib \<Rightarrow> transport \<Rightarrow> AsyncSession \<Rightarrow> request \<times> (py_exn + DriftReport)" where
  "async_session_check_drift L http self =
     (let (rq, r) = async_session_request http ''GET''
                      (''/v1/sessions/'' @ fmt L (async_session_id self) @ ''/drift'') None
      in (rq,
          case r of
            Inl e \<Rightarrow> Inl e
          | Inr res \<Rightarrow>
              (case res_json res of
                 Inl e \<Rightarrow> Inl e
               | Inr data \<Rightarrow> init_model (validate_DriftReport L) data)))"

definition async_session_get_graph ::
  "pylib \<Rightarrow> transport \<Rightarrow> AsyncSession \<Rightarrow> request \<times> (py_exn + IntentGraph)" where
  "async_session_get_graph L http self =
     (let (rq, r) = async_session_request http ''GET''
                      (''/v1/sessions/'' @ fmt L (async_session_id self) @ ''/graph'') None
      in (rq,
          case r of
            Inl e \<Rightarrow> Inl e
          | Inr res \<Rightarrow>
              (case res_json res of
                 Inl e \<Rightarrow> Inl e
               | Inr data \<Rightarrow>
                   (case py_get data ''graph'' data of
                      Inl e \<Rightarrow> Inl e
                    | Inr g \<Rightarrow> init_model (validate_IntentGraph L) g))))"

definition async_session_end ::
  "pylib \<Rightarrow> transport \<Rightarrow> AsyncSession \<Rightarrow> request \<times> (py_exn + unit)" where
  "async_session_end L http self =
     (let (rq, r) = async_session_request http ''POST''
                      (''/v1/sessions/'' @ fmt L (async_session_id self) @ ''/end'') (Some (JObj []))
      in (rq, case r of Inl e \<Rightarrow> Inl e | Inr res \<Rightarrow> Inr ()))"

definition async_parse ::
  "pylib \<Rightarrow> transport \<Rightarrow> string \<Rightarrow> string option \<Rightarrow> request \<times> (py_exn + IntentGraph)" where
  "async_parse L http msg provider =
     (let body = [(''message'', JStr msg)];
          body = (case provider of None \<Rightarrow> body | Some p \<Rightarrow> body @ [(''provider'', JStr p)]);
          (rq, r) = async_client_request http ''POST'' ''/v1/parse'' (Some (JObj body))
      in (rq,
          case r of
            Inl e \<Rightarrow> Inl e
          | Inr res \<Rightarrow>
              (case res_json res of
                 Inl e \<Rightarrow> Inl e
               | Inr data \<Rightarrow>
                   (case py_get data ''graph'' data of
                      Inl e \<Rightarrow> Inl e
                    | Inr g \<Rightarrow> init_model (validate_IntentGraph L) g))))"

definition async_create_session ::
  "transport \<Rightarrow> string option \<Rightarrow> request \<times> (py_exn + AsyncSession)" where
  "async_create_session http sid_arg =
     (let body = (case sid_arg of None \<Rightarrow> [] | Some i \<Rightarrow> [(''session_id'', JStr i)]);
          (rq, r) = async_client_request http ''POST'' ''/v1/sessions'' (Some (JObj body))
      in (rq,
          case r of
            Inl e \<Rightarrow> Inl e
          | Inr res \<Rightarrow>
              (case res_json res of
                 Inl e \<Rightarrow> Inl e
               | Inr data \<Rightarrow>
                   (case py_getitem data ''session_id'' of
                      Inl e \<Rightarrow> Inl e
                    | Inr sid \<Rightarrow> Inr (AsyncSession sid)))))"

definition async_list_sessions ::
  "pylib \<Rightarrow> transport \<Rightarrow> request \<times> (py_exn + SessionInfo list)" where
  "async_list_sessions L http =
     (let (rq, r) = async_client_request http ''GET'' ''/v1/sessions'' None
      in (rq,
          case r of
            Inl e \<Rightarrow> Inl e
          | Inr res \<Rightarrow>
              (case res_json res of
                 Inl e \<Rightarrow> Inl e
               | Inr data \<Rightarrow>
                   (case py_get data ''sessions'' data of
                      Inl e \<Rightarrow> Inl e
                    | Inr ss \<Rightarrow>
                        (case py_iter ss of
                           Inl e \<Rightarrow> Inl e
                         | Inr xs \<Rightarrow> comprehension (init_model (validate_SessionInfo L)) xs)))))"

definition async_get_usage :: "pylib \<Rightarrow> transport \<Rightarrow> request \<times> (py_exn + UsageInfo)" where
  "async_get_usage L http =
     (let (rq, r) = async_client_request http ''GET'' ''/v1/usage'' None
      in (rq,
          case r of
            Inl e \<Rightarrow> Inl e
          | Inr res \<Rightarrow>
              (case res_json res of
                 Inl e \<Rightarrow> Inl e
               | Inr data \<Rightarrow> init_model (validate_UsageInfo L) data)))"

section \<open>The package's modules\<close>

text \<open>
  What running a module binds. A module is the sequence of its top-level statements: a
  statement binds a name (a \<^verbatim>\<open>class\<close>, a \<^verbatim>\<open>def\<close>, an assignment, an import from outside the
  package, taken to succeed), or it is \<^verbatim>\<open>from .m import x, y\<close>, which runs module \<open>m\<close> of
  the package and then needs each name among those \<open>m\<close> bound. The imports under
  \<^verbatim>\<open>if TYPE_CHECKING:\<close> in \<^verbatim>\<open>session.py\<close> are not run.
\<close>

datatype stmt = Bind string | FromImport string "string list"

definition types_py :: "stmt list" where
  "types_py =
     [Bind ''annotations'', Bind ''BaseModel'', Bind ''Field'',
      Bind ''LatentStates'', Bind ''IntentMeta'', Bind ''SubGoal'', Bind ''IntentGraph'',
      Bind ''ParseResponse'', Bind ''DriftReport'', Bind ''SessionInfo'', Bind ''CreditInfo'',
      Bind ''UsageMonth'', Bind ''UsageInfo'']"

definition errors_py :: "stmt list" where
  "errors_py =
     [Bind ''annotations'', Bind ''Any'',
      Bind ''XeroMLError'', Bind ''InvalidAPIKeyError'', Bind ''CreditsExhaustedError'',
      Bind ''RateLimitedError'', Bind ''ParseFailedError'', Bind ''SessionNotFoundError'',
      Bind ''SessionEndedError'', Bind ''_ERROR_MAP'', Bind ''raise_for_status'']"

definition session_py :: "stmt list" where
  "session_py =
     [Bind ''annotations'', Bind ''TYPE_CHECKING'', Bind ''httpx'',
      FromImport ''types'' [''DriftReport'', ''IntentGraph''],
      Bind ''Session'', Bind ''AsyncSession'']"

definition client_py :: "stmt list" where
  "client_py =
     [Bind ''annotations'', Bind ''httpx'',
      FromImport ''errors'' [''raise_for_status''],
      FromImport ''session'' [''Session''],
      FromImport ''types'' [''IntentGraph'', ''SessionInfo'', ''UsageInfo''],
      Bind ''XeroML'']"

definition async_client_py :: "stmt list" where
  "async_client_py =
     [Bind ''annotations'', Bind ''httpx'',
      FromImport ''errors'' [''raise_for_status''],
      FromImport ''session'' [''AsyncSession''],
      FromImport ''types'' [''IntentGraph'', ''SessionInfo'', ''UsageInfo''],
      Bind ''AsyncXeroML'']"

definition init_py :: "stmt list" where
  "init_py =
     [FromImport ''async_client'' [''AsyncXeroML''],
      FromImport ''client'' [''XeroML''],
      FromImport ''errors''
        [''CreditsExhaustedError'', ''InvalidAPIKeyError'', ''ParseFailedError'',
         ''RateLimitedError'', ''SessionEndedError'', ''SessionNotFoundError'', ''XeroMLError''],
      FromImport ''session'' [''AsyncSession'', ''Session''],
      FromImport ''types''
        [''CreditInfo'', ''DriftEvent'', ''DriftReport'', ''GraphTurn'', ''IntentGraph'',
         ''IntentMeta'', ''LatentStates'', ''ParseResponse'', ''SessionHistoryResponse'',
         ''SessionInfo'', ''SubGoal'', ''UsageInfo'', ''UsageMonth''],
      Bind ''__all__'']"

definition xeroml_package :: "(string \<times> stmt list) list" where
  "xeroml_package =
     [(''__init__'', init_py), (''async_client'', async_client_py), (''client'', client_py),
      (''errors'', errors_py), (''session'', session_py), (''types'', types_py)]"

text \<open>Running a module gives the names it binds, or the exception that stops it. The
  first argument bounds the depth of nested imports; \<open>None\<close> is the bound reached.\<close>

fun exec_module :: "nat \<Rightarrow> string \<Rightarrow> (py_exn + string list) option"
  and exec_stmts :: "nat \<Rightarrow> stmt list \<Rightarrow> string list \<Rightarrow> (py_exn + string list) option" where
  "exec_module 0 m = None"
| "exec_module (Suc n) m =
     (case map_of xeroml_package m of
        None \<Rightarrow> Some (Inl (ImportError m))
      | Some body \<Rightarrow> exec_stmts n body [])"
| "exec_stmts n [] ns = Some (Inr ns)"
| "exec_stmts n (Bind x # ss) ns = exec_stmts n ss (ns @ [x])"
| "exec_stmts n (FromImport m xs # ss) ns =
     (case exec_module n m of
        None \<Rightarrow> None
      | Some (Inl e) \<Rightarrow> Some (Inl e)
      | Some (Inr bound) \<Rightarrow>
          (case filter (\<lambda>x. x \<notin> set bound) xs of
             [] \<Rightarrow> exec_stmts n ss (ns @ xs)
           | x # _ \<Rightarrow> Some (Inl (ImportError x))))"

section \<open>Payloads of the test suite\<close>

text \<open>
  \<^verbatim>\<open>SAMPLE_GRAPH\<close>, \<^verbatim>\<open>SAMPLE_PARSE_RESPONSE\<close> and \<^verbatim>\<open>SAMPLE_DRIFT_RESPONSE\<close> of
  \<^verbatim>\<open>tests/test_client.py\<close>, each as the key-value list of the \<^verbatim>\<open>dict\<close>, with the sub-goal,
  the latent states and the meta object of the graph named on their own. The decimals are
  floats, written as the fractions they denote. The \<open>minimal\<close> payloads keep the fields
  without a default only.
\<close>

definition SAMPLE_SUB_GOAL :: "(string \<times> json) list" where
  "SAMPLE_SUB_GOAL =
     [(''id'', JStr ''sg_001''), (''goal'', JStr ''Add OAuth2 support''),
      (''status'', JStr ''pending''), (''priority'', JFloat (Finite (9 / 10))),
      (''success_criteria'', JArr [JStr ''OAuth2 flow works'']), (''constraints'', JArr []),
      (''uncertainty'', JFloat (Finite (3 / 10))), (''context_requirements'', JArr []),
      (''modality'', JStr ''code''), (''dependencies'', JArr []), (''children'', JArr [])]"

definition SAMPLE_LATENT_STATES :: "(string \<times> json) list" where
  "SAMPLE_LATENT_STATES =
     [(''goal_intent'', JStr ''refactoring''), (''action_readiness'', JStr ''executing''),
      (''ambiguity_level'', JStr ''clear''), (''risk_sensitivity'', JStr ''medium''),
      (''intent_scope'', JStr ''compound'')]"

definition SAMPLE_META :: "(string \<times> json) list" where
  "SAMPLE_META =
     [(''source'', JStr ''user_input''), (''confidence'', JFloat (Finite (17 / 20))),
      (''negotiation_history'', JArr []), (''latent_states'', JObj SAMPLE_LATENT_STATES)]"

definition SAMPLE_GRAPH :: "(string \<times> json) list" where
  "SAMPLE_GRAPH =
     [(''schema_version'', JStr ''0.1.0''), (''root_goal'', JStr ''Refactor auth module''),
      (''sub_goals'', JArr [JObj SAMPLE_SUB_GOAL]), (''meta'', JObj SAMPLE_META)]"

definition SAMPLE_PARSE_RESPONSE :: "(string \<times> json) list" where
  "SAMPLE_PARSE_RESPONSE =
     [(''graph'', JObj SAMPLE_GRAPH), (''request_id'', JStr ''req_abc123''),
      (''latency_ms'', JInt 150)]"

definition SAMPLE_DRIFT_RESPONSE :: "(string \<times> json) list" where
  "SAMPLE_DRIFT_RESPONSE =
     [(''detected'', JBool True), (''drift_type'', JStr ''scope_creep''),
      (''severity'', JFloat (Finite (6 / 10))), (''description'', JStr ''User added new requirement''),
      (''previous_goal'', JStr ''Refactor auth''),
      (''current_goal'', JStr ''Refactor auth + add payments'')]"

definition minimal_sub_goal :: "(string \<times> json) list" where
  "minimal_sub_goal =
     [(''id'', JStr ''sg_001''), (''goal'', JStr ''Add OAuth2 support''), (''priority'', JFloat (Finite 0))]"

definition minimal_meta :: "(string \<times> json) list" where
  "minimal_meta = [(''confidence'', JFloat (Finite 0)), (''latent_states'', JObj SAMPLE_LATENT_STATES)]"

definition minimal_graph :: "(string \<times> json) list" where
  "minimal_graph =
     [(''root_goal'', JStr ''Refactor auth module''),
      (''sub_goals'', JArr [JObj minimal_sub_goal]), (''meta'', JObj minimal_meta)]"

definition minimal_parse_response :: "(string \<times> json) list" where
  "minimal_parse_response =
     [(''graph'', JObj minimal_graph), (''request_id'', JStr ''req_abc123''),
      (''latency_ms'', JInt 150)]"

definition minimal_drift :: "(string \<times> json) list" where
  "minimal_drift = [(''detected'', JBool False)]"

definition minimal_usage_month :: "(string \<times> json) list" where
  "minimal_usage_month =
     [(''month'', JStr ''2026-02-01''), (''parse_calls'', JInt 42), (''drift_checks'', JInt 0),
      (''session_creates'', JInt 5)]"

definition minimal_usage :: "(string \<times> json) list" where
  "minimal_usage =
     [(''credits'', JObj [(''used'', JInt 42), (''total'', JInt 100), (''remaining'', JInt 58)]),
      (''tier'', JStr ''free''), (''rate_limit'', JInt 100)]"

section \<open>Properties of the error classifier\<close>

lemmas init_defs =
  XeroMLError_init_def InvalidAPIKeyError_init_def CreditsExhaustedError_init_def
  RateLimitedError_init_def ParseFailedError_init_def SessionNotFoundError_init_def
  SessionEndedError_init_def

lemma error_fields_get:
  "error_fields body = Some ed \<Longrightarrow> py_get body ''error'' body = Inr (JObj ed)"
  by (auto simp: error_fields_def dict_get_def split: json.splits option.splits)

lemma raise_for_status_fields:
  assumes "error_fields body = Some ed"
  shows "raise_for_status s body =
     (case map_of ERROR_MAP s of
        None \<Rightarrow>
          Raised (XeroMLError_init (dict_get ed ''code'' (JStr ''unknown'')) s
                    (dict_get ed ''message'' (JStr ''Unknown error''))
                    (dict_get ed ''details'' JNull))
      | Some c \<Rightarrow>
          construct c (dict_get ed ''message'' (JStr ''Unknown error''))
            (dict_get ed ''details'' JNull))"
  unfolding raise_for_status_def error_fields_get[OF assms]
  by (simp add: ERROR_MAP_def Let_def)

text \<open>
  \<^bold>\<open>C1.\<close> For each status of the table (401, 402, 422, 429, 404, 409) and every error
  body, in either of its two shapes, \<open>raise_for_status\<close> raises the class the table maps
  the status to, with that class's fixed code string and status integer; for every other
  status it raises the base \<open>XeroMLError\<close> with the given status and with the \<open>code\<close> of
  the body's error fields, or \<open>unknown\<close> when there is none. Message and details are the
  body's in every case.
\<close>

theorem raise_for_status_table:
  assumes "error_fields body = Some ed"
  shows "(let m = dict_get ed ''message'' (JStr ''Unknown error'');
              d = dict_get ed ''details'' JNull
          in raise_for_status 401 body =
               Raised \<lparr>cls = InvalidAPIKeyError, code = JStr ''invalid_api_key'',
                       status = 401, message = m, details = d\<rparr> \<and>
             raise_for_status 402 body =
               Raised \<lparr>cls = CreditsExhaustedError, code = JStr ''credits_exhausted'',
                       status = 402, message = m, details = d\<rparr> \<and>
             raise_for_status 422 body =
               Raised \<lparr>cls = ParseFailedError, code = JStr ''parse_failed'',
                       status = 422, message = m, details = d\<rparr> \<and>
             raise_for_status 429 body =
               Raised \<lparr>cls = RateLimitedError, code = JStr ''rate_limited'',
                       status = 429, message = m, details = d\<rparr> \<and>
             raise_for_status 404 body =
               Raised \<lparr>cls = SessionNotFoundError, code = JStr ''session_not_found'',
                       status = 404, message = m, details = d\<rparr> \<and>
             raise_for_status 409 body =
               Raised \<lparr>cls = SessionEndedError, code = JStr ''session_ended'',
                       status = 409, message = m, details = d\<rparr> \<and>
             (s \<notin> {401, 402, 422, 429, 404, 409} \<longrightarrow>
                raise_for_status s body =
                  Raised \<lparr>cls = XeroMLError, code = dict_get ed ''code'' (JStr ''unknown''),
                          status = s, message = m, details = d\<rparr>))"
  unfolding raise_for_status_fields[OF assms]
  by (simp add: ERROR_MAP_def init_defs Let_def)

text \<open>The 402 body of the test suite, classified under 402 and under 500.\<close>

theorem raise_for_status_table_witness:
  "error_fields
     (JObj [(''error'', JObj [(''code'', JStr ''credits_exhausted''),
                              (''message'', JStr ''All 100 credits used.''),
                              (''status'', JInt 402),
                              (''details'', JObj [(''credits_used'', JInt 100),
                                                  (''credits_total'', JInt 100)])])])
     = Some [(''code'', JStr ''credits_exhausted''),
             (''message'', JStr ''All 100 credits used.''),
             (''status'', JInt 402),
             (''details'', JObj [(''credits_used'', JInt 100), (''credits_total'', JInt 100)])]
   \<and> raise_for_status 402
     (JObj [(''error'', JObj [(''code'', JStr ''credits_exhausted''),
                              (''message'', JStr ''All 100 credits used.''),
                              (''status'', JInt 402),
                              (''details'', JObj [(''credits_used'', JInt 100),
                                                  (''credits_total'', JInt 100)])])])
     = Raised \<lparr>cls = CreditsExhaustedError, code = JStr ''credits_exhausted'', status = 402,
               message = JStr ''All 100 credits used.'',
               details = JObj [(''credits_used'', JInt 100), (''credits_total'', JInt 100)]\<rparr>
   \<and> raise_for_status 500
     (JObj [(''error'', JObj [(''code'', JStr ''credits_exhausted''),
                              (''message'', JStr ''All 100 credits used.''),
                              (''status'', JInt 402),
                              (''details'', JObj [(''credits_used'', JInt 100),
                                                  (''credits_total'', JInt 100)])])])
     = Raised \<lparr>cls = XeroMLError, code = JStr ''credits_exhausted'', status = 500,
               message = JStr ''All 100 credits used.'',
               details = JObj [(''credits_used'', JInt 100), (''credits_total'', JInt 100)]\<rparr>"
proof -
  let ?ed = "[(''code'', JStr ''credits_exhausted''),
              (''message'', JStr ''All 100 credits used.''),
              (''status'', JInt 402),
              (''details'', JObj [(''credits_used'', JInt 100), (''credits_total'', JInt 100)])]"
  have shape: "error_fields (JObj [(''error'', JObj ?ed)]) = Some ?ed"
    by (simp add: error_fields_def)
  show ?thesis
    using shape raise_for_status_table[OF shape, of 500]
    by (simp add: dict_get_def Let_def)
qed

text \<open>
  \<^bold>\<open>C4.\<close> Each error class declares a default message of its own, but \<open>raise_for_status\<close>
  always passes a message to the constructor: for a body without a \<open>message\<close> field it
  passes \<open>Unknown error\<close>, whatever the status. Shown on the empty body for the six
  mapped statuses, beside the defaults the constructors would have used.
\<close>

theorem missing_message_is_unknown_error:
  "map (\<lambda>s. raise_for_status s (JObj [])) [401, 402, 429, 422, 404, 409] =
     [Raised \<lparr>cls = InvalidAPIKeyError, code = JStr ''invalid_api_key'', status = 401,
              message = JStr ''Unknown error'', details = JNull\<rparr>,
      Raised \<lparr>cls = CreditsExhaustedError, code = JStr ''credits_exhausted'', status = 402,
              message = JStr ''Unknown error'', details = JNull\<rparr>,
      Raised \<lparr>cls = RateLimitedError, code = JStr ''rate_limited'', status = 429,
              message = JStr ''Unknown error'', details = JNull\<rparr>,
      Raised \<lparr>cls = ParseFailedError, code = JStr ''parse_failed'', status = 422,
              message = JStr ''Unknown error'', details = JNull\<rparr>,
      Raised \<lparr>cls = SessionNotFoundError, code = JStr ''session_not_found'', status = 404,
              message = JStr ''Unknown error'', details = JNull\<rparr>,
      Raised \<lparr>cls = SessionEndedError, code = JStr ''session_ended'', status = 409,
              message = JStr ''Unknown error'', details = JNull\<rparr>]
   \<and> map message
       [InvalidAPIKeyError_init None JNull, CreditsExhaustedError_init None JNull,
        RateLimitedError_init None JNull, ParseFailedError_init None JNull,
        SessionNotFoundError_init None JNull, SessionEndedError_init None JNull] =
     [JStr ''Invalid or revoked API key.'', JStr ''Credits exhausted.'',
      JStr ''Rate limit exceeded.'', JStr ''Parse failed.'', JStr ''Session not found.'',
      JStr ''Session is already completed.'']"
  by (simp add: raise_for_status_def ERROR_MAP_def init_defs dict_get_def Let_def)

text \<open>
  \<^bold>\<open>C7.\<close> For every status, a body that carries the error fields under an \<open>error\<close>
  object and a body that carries them at the top level (so that it has no \<open>error\<close> key)
  are both classified, and when \<open>code\<close>, \<open>message\<close> and \<open>details\<close> are the same in the
  two, the failure raised is the same.
\<close>

theorem error_body_either_shape:
  assumes "map_of wrapped ''error'' = Some (JObj ed)"
    and "map_of flat ''error'' = None"
    and "map_of flat ''code'' = map_of ed ''code''"
    and "map_of flat ''message'' = map_of ed ''message''"
    and "map_of flat ''details'' = map_of ed ''details''"
  shows "raise_for_status s (JObj wrapped) = raise_for_status s (JObj flat) \<and>
         (\<exists>e. raise_for_status s (JObj flat) = Raised e \<and>
              message e = dict_get ed ''message'' (JStr ''Unknown error'') \<and>
              details e = dict_get ed ''details'' JNull)"
proof -
  have w: "error_fields (JObj wrapped) = Some ed"
    using assms(1) by (simp add: error_fields_def)
  have t: "error_fields (JObj flat) = Some flat"
    using assms(2) by (simp add: error_fields_def)
  have same: "dict_get flat ''code'' x = dict_get ed ''code'' x"
    "dict_get flat ''message'' y = dict_get ed ''message'' y"
    "dict_get flat ''details'' z = dict_get ed ''details'' z" for x y z
    using assms(3-5) by (simp_all add: dict_get_def)
  have eq: "raise_for_status s (JObj wrapped) = raise_for_status s (JObj flat)"
    by (simp add: raise_for_status_fields[OF w] raise_for_status_fields[OF t] same
        cong: option.case_cong)
  have "\<exists>e. raise_for_status s (JObj wrapped) = Raised e \<and>
              message e = dict_get ed ''message'' (JStr ''Unknown error'') \<and>
              details e = dict_get ed ''details'' JNull"
    by (auto simp: raise_for_status_fields[OF w] ERROR_MAP_def init_defs)
  with eq show ?thesis by simp
qed

text \<open>The 401 body of the test suite, nested and flat, under status 401.\<close>

theorem error_body_either_shape_witness:
  "raise_for_status 401
     (JObj [(''error'', JObj [(''code'', JStr ''invalid_api_key''),
                              (''message'', JStr ''Invalid key''), (''status'', JInt 401)])])
   = raise_for_status 401
     (JObj [(''code'', JStr ''invalid_api_key''), (''message'', JStr ''Invalid key''),
            (''status'', JInt 401)])
   \<and> (\<exists>e. raise_for_status 401
            (JObj [(''code'', JStr ''invalid_api_key''), (''message'', JStr ''Invalid key''),
                   (''status'', JInt 401)]) = Raised e
          \<and> message e = JStr ''Invalid key'' \<and> details e = JNull)"
  using error_body_either_shape
    [of "[(''error'', JObj [(''code'', JStr ''invalid_api_key''),
                            (''message'', JStr ''Invalid key''), (''status'', JInt 401)])]"
        "[(''code'', JStr ''invalid_api_key''), (''message'', JStr ''Invalid key''),
          (''status'', JInt 401)]"
        "[(''code'', JStr ''invalid_api_key''), (''message'', JStr ''Invalid key''),
          (''status'', JInt 401)]" 401]
  by (simp add: dict_get_def)

section \<open>Properties of the client operations\<close>

lemmas client_defs =
  client_request_def session_request_def parse_def create_session_def list_sessions_def
  get_usage_def session_parse_def session_update_def session_check_drift_def
  session_get_graph_def session_end_def

lemmas async_defs =
  async_client_request_def async_session_request_def async_parse_def
  async_create_session_def async_list_sessions_def async_get_usage_def
  async_session_parse_def async_session_update_def async_session_check_drift_def
  async_session_get_graph_def async_session_end_def

text \<open>
  \<^bold>\<open>C8.\<close> The body the one-shot parse and the session parse send, on both clients: the
  single key \<open>message\<close> when no provider is given, the keys \<open>message\<close> and \<open>provider\<close>
  when one is. This holds whatever the transport answers.
\<close>

theorem parse_request_body:
  "json_body (fst (parse L http msg None)) = Some (JObj [(''message'', JStr msg)]) \<and>
   json_body (fst (parse L http msg (Some p))) =
     Some (JObj [(''message'', JStr msg), (''provider'', JStr p)]) \<and>
   json_body (fst (session_parse L http sess msg None)) = Some (JObj [(''message'', JStr msg)]) \<and>
   json_body (fst (session_parse L http sess msg (Some p))) =
     Some (JObj [(''message'', JStr msg), (''provider'', JStr p)]) \<and>
   json_body (fst (async_parse L http msg None)) = Some (JObj [(''message'', JStr msg)]) \<and>
   json_body (fst (async_parse L http msg (Some p))) =
     Some (JObj [(''message'', JStr msg), (''provider'', JStr p)]) \<and>
   json_body (fst (async_session_parse L http asess msg None)) =
     Some (JObj [(''message'', JStr msg)]) \<and>
   json_body (fst (async_session_parse L http asess msg (Some p))) =
     Some (JObj [(''message'', JStr msg), (''provider'', JStr p)])"
  by (simp add: client_defs async_defs Let_def)

text \<open>
  \<^bold>\<open>C9.\<close> Against the same transport, every operation of the asynchronous client sends
  the request its synchronous twin sends and ends the same way: the same value returned
  or the same exception raised. \<open>create_session\<close> returns handles of two different
  classes; they carry the same session identifier.
\<close>

theorem async_client_agrees:
  "async_parse L http msg provider = parse L http msg provider \<and>
   fst (async_create_session http sid_arg) = fst (create_session http sid_arg) \<and>
   map_sum id async_session_id (snd (async_create_session http sid_arg)) =
     map_sum id session_id (snd (create_session http sid_arg)) \<and>
   async_list_sessions L http = list_sessions L http \<and>
   async_get_usage L http = get_usage L http \<and>
   async_session_parse L http (AsyncSession sid) msg provider =
     session_parse L http (Session sid) msg provider \<and>
   async_session_update L http (AsyncSession sid) resp role =
     session_update L http (Session sid) resp role \<and>
   async_session_check_drift L http (AsyncSession sid) =
     session_check_drift L http (Session sid) \<and>
   async_session_get_graph L http (AsyncSession sid) =
     session_get_graph L http (Session sid) \<and>
   async_session_end L http (AsyncSession sid) = session_end L http (Session sid)"
proof -
  have rq: "async_client_request http m p b = client_request http m p b" for m p b
    by (simp add: async_client_request_def client_request_def)
  have cs: "map_sum id async_session_id (snd (async_create_session http sid_arg)) =
     map_sum id session_id (snd (create_session http sid_arg))"
    by (simp add: async_create_session_def create_session_def rq Let_def split_beta
        split: sum.splits)
  show ?thesis
    using cs
    by (simp add: async_parse_def parse_def async_create_session_def create_session_def
        async_list_sessions_def list_sessions_def async_get_usage_def get_usage_def
        async_session_request_def session_request_def
        async_session_parse_def session_parse_def
        async_session_update_def session_update_def
        async_session_check_drift_def session_check_drift_def
        async_session_get_graph_def session_get_graph_def
        async_session_end_def session_end_def rq Let_def split_beta)
qed

text \<open>
  \<^bold>\<open>C2.\<close> \<open>list_sessions\<close> on a success response whose body is a bare sequence: the
  expression \<^verbatim>\<open>res.json().get("sessions", res.json())\<close> calls \<^verbatim>\<open>.get\<close> on a list, and the
  call ends in \<open>AttributeError\<close>, on both clients and for every sequence. The same
  session object wrapped under \<open>sessions\<close> is returned as a one-element list.
\<close>

theorem list_sessions_bare_sequence:
  "snd (list_sessions L (\<lambda>rq. Inr \<lparr>status_code = 200, content = Some (JArr xs)\<rparr>)) =
     Inl AttributeError \<and>
   snd (async_list_sessions L (\<lambda>rq. Inr \<lparr>status_code = 200, content = Some (JArr xs)\<rparr>)) =
     Inl AttributeError \<and>
   snd (list_sessions L (\<lambda>rq. Inr \<lparr>status_code = 200, content = Some (JObj [(''sessions'',
          JArr [JObj [(''session_id'', JStr ''s1''), (''status'', JStr ''active''),
                      (''turn_count'', JInt 2), (''created_at'', JStr ''2026-01-01T00:00:00Z''),
                      (''updated_at'', JStr ''2026-01-01T00:01:00Z'')]])])\<rparr>)) =
     Inr [\<lparr>si_session_id = ''s1'', si_status = ''active'', turn_count = 2,
           created_at = ''2026-01-01T00:00:00Z'', updated_at = ''2026-01-01T00:01:00Z''\<rparr>]"
  by (simp add: list_sessions_def async_list_sessions_def client_request_def
      async_client_request_def is_success_def res_json_def dict_get_def init_model_def
      validate_SessionInfo_def required_def str_v_def int_v_def Let_def)

section \<open>Properties of the models\<close>

lemma required_update:
  "required f (AList.update k v kvs) k' = (if k' = k then f v else required f kvs k')"
  by (simp add: required_def update_conv')

lemma with_default_update:
  "with_default d f (AList.update k v kvs) k' =
     (if k' = k then f v else with_default d f kvs k')"
  by (simp add: with_default_def update_conv')

lemma children_update:
  "k \<noteq> ''children'' \<Longrightarrow> map_of (AList.update k v kvs) ''children'' = map_of kvs ''children''"
  by (simp add: update_conv')

lemma with_default_Some:
  "with_default d f kvs k = Some x \<Longrightarrow>
     (case map_of kvs k of None \<Rightarrow> x = d | Some v \<Rightarrow> f v = Some x)"
  by (auto simp: with_default_def split: option.splits)

lemma str_pattern_None: "v \<notin> JStr ` set alts \<Longrightarrow> str_pattern alts v = None"
  by (cases v) (auto simp: str_pattern_def)

lemma str_pattern_Some: "s \<in> set alts \<Longrightarrow> str_pattern alts (JStr s) = Some s"
  by (simp add: str_pattern_def)

subsection \<open>Range checks\<close>

lemma bit_length_lower: "0 < n \<Longrightarrow> 2 ^ (bit_length n - 1) \<le> n"
proof (induction n rule: bit_length.induct)
  case (1 n)
  show ?case
  proof (cases "n div 2 = 0")
    case True
    with "1.prems" have "bit_length n = Suc 0"
      by (simp add: bit_length.simps[of n] bit_length.simps[of 0])
    with "1.prems" show ?thesis by simp
  next
    case False
    with "1.prems" "1.IH" have ih: "2 ^ (bit_length (n div 2) - 1) \<le> n div 2"
      by simp
    have pos: "0 < bit_length (n div 2)"
      using False by (simp add: bit_length.simps[of "n div 2"])
    have "bit_length n = Suc (bit_length (n div 2))"
      using "1.prems" by (simp add: bit_length.simps[of n])
    then have "(2::nat) ^ (bit_length n - 1) = 2 * 2 ^ (bit_length (n div 2) - 1)"
      using pos by (cases "bit_length (n div 2)") simp_all
    also have "\<dots> \<le> 2 * (n div 2)"
      using ih by simp
    also have "\<dots> \<le> n"
      by simp
    finally show ?thesis .
  qed
qed

lemma bit_length_upper: "n < 2 ^ k \<Longrightarrow> bit_length n \<le> k"
proof (induction k arbitrary: n)
  case 0
  then show ?case by (simp add: bit_length.simps[of 0])
next
  case (Suc k)
  show ?case
  proof (cases "n = 0")
    case True
    then show ?thesis by (simp add: bit_length.simps[of 0])
  next
    case False
    have "n div 2 < 2 ^ k"
      using Suc.prems by simp
    then have "bit_length (n div 2) \<le> k"
      by (rule Suc.IH)
    with False show ?thesis
      by (simp add: bit_length.simps[of n])
  qed
qed

lemma nearest_double_small: "\<bar>n\<bar> < 2 ^ 53 \<Longrightarrow> nearest_double n = n"
proof -
  assume "\<bar>n\<bar> < 2 ^ 53"
  then have "nat \<bar>n\<bar> < 2 ^ 53"
    by simp
  then have "bit_length (nat \<bar>n\<bar>) \<le> 53"
    by (rule bit_length_upper)
  then show ?thesis
    by (simp add: nearest_double_def Let_def)
qed

lemma float_from_int_small:
  "\<bar>n\<bar> < 2 ^ 53 \<Longrightarrow> float_from_int n = Some (Finite (of_int n))"
  by (simp add: float_from_int_def nearest_double_small Let_def)

text \<open>Rounding keeps an integer on its side of the interval from 0 to 1.\<close>

lemma nearest_double_outside:
  "n < 0 \<Longrightarrow> nearest_double n < 0" "1 < n \<Longrightarrow> 1 < nearest_double n"
proof -
  define a where "a = nat \<bar>n\<bar>"
  define e where "e = bit_length a - 53"
  define q where "q = a div 2 ^ e"
  define q' where "q' = (if 2 ^ (e - 1) < a mod 2 ^ e \<or> (a mod 2 ^ e = 2 ^ (e - 1) \<and> odd q)
                         then q + 1 else q)"
  have unfold: "nearest_double n = (if e = 0 then n else sgn n * int (q' * 2 ^ e))"
    by (simp add: nearest_double_def Let_def a_def e_def q_def q'_def)
  have big: "2 \<le> q' * 2 ^ e" if "e \<noteq> 0" "n \<noteq> 0"
  proof -
    from that have "0 < a"
      by (simp add: a_def)
    then have le1: "2 ^ (bit_length a - 1) \<le> a"
      by (rule bit_length_lower)
    have le2: "(2::nat) ^ e \<le> 2 ^ (bit_length a - 1)"
      by (rule power_increasing) (simp_all add: e_def)
    have "2 ^ e \<le> a"
      using le2 le1 by (rule order_trans)
    then have "1 \<le> q"
      by (simp add: q_def div_greater_zero_iff Suc_le_eq)
    then have "1 \<le> q'"
      by (simp add: q'_def)
    moreover have "(2::nat) \<le> 2 ^ e"
      using that(1) by (cases e) simp_all
    ultimately have "1 * 2 \<le> q' * 2 ^ e"
      by (rule mult_le_mono)
    then show ?thesis by simp
  qed
  show "nearest_double n < 0" if "n < 0"
  proof (cases "e = 0")
    case True
    with that show ?thesis by (simp add: unfold)
  next
    case False
    with that big have "2 \<le> q' * 2 ^ e"
      by simp
    then have "0 < int (q' * 2 ^ e)"
      by linarith
    with that False show ?thesis
      by (simp add: unfold sgn_if)
  qed
  show "1 < nearest_double n" if "1 < n"
  proof (cases "e = 0")
    case True
    with that show ?thesis by (simp add: unfold)
  next
    case False
    with that big have "2 \<le> q' * 2 ^ e"
      by simp
    then have "1 < int (q' * 2 ^ e)"
      by linarith
    with that False show ?thesis
      by (simp add: unfold sgn_if)
  qed
qed

lemma float_ge_le_JFloat:
  "float_ge_le L lo hi (JFloat f) =
     (case f of
        Finite r \<Rightarrow> (if lo \<le> r \<and> r \<le> hi then Some (Finite r) else None)
      | PosInf \<Rightarrow> None
      | NegInf \<Rightarrow> None
      | NaN \<Rightarrow> (if nan_passes_bounds L then Some NaN else None))"
  by (simp add: float_ge_le_def float_v_def split: pyfloat.splits)

lemma float_outside_rejected:
  "f \<in> {PosInf, NegInf} \<union> Finite ` {r. r < 0 \<or> 1 < r} \<Longrightarrow>
   float_ge_le L 0 1 (JFloat f) = None"
  by (auto simp: float_ge_le_JFloat)

lemma float_inside_accepted:
  "0 \<le> b \<Longrightarrow> b \<le> 1 \<Longrightarrow> float_ge_le L 0 1 (JFloat (Finite b)) = Some (Finite b)"
  by (simp add: float_ge_le_JFloat)

lemma int_outside_rejected:
  assumes "n < 0 \<or> 1 < n"
  shows "float_ge_le L 0 1 (JInt n) = None"
proof -
  have "nearest_double n < 0 \<or> 1 < nearest_double n"
    using assms nearest_double_outside[of n] by blast
  then have "(of_int (nearest_double n) :: rat) < 0 \<or> 1 < (of_int (nearest_double n) :: rat)"
    by auto
  then show ?thesis
    by (auto simp: float_ge_le_def float_v_def float_from_int_def Let_def)
qed

lemma int_bound_accepted:
  "i = 0 \<or> i = 1 \<Longrightarrow> float_ge_le L 0 1 (JInt i) = Some (Finite (of_int i))"
  by (auto simp: float_ge_le_def float_v_def float_from_int_small)

lemma meta_confidence_rejected:
  "map_of kvs ''confidence'' = Some v \<Longrightarrow> float_ge_le L 0 1 v = None \<Longrightarrow>
   validate_IntentMeta L kvs = None"
  by (auto simp: validate_IntentMeta_def required_def split: Option.bind_splits)

lemma subgoal_priority_rejected:
  "map_of kvs ''priority'' = Some v \<Longrightarrow> float_ge_le L 0 1 v = None \<Longrightarrow>
   validate_SubGoal L (JObj kvs) = None"
  by (auto simp: required_def split: Option.bind_splits)

lemma subgoal_uncertainty_rejected:
  "map_of kvs ''uncertainty'' = Some v \<Longrightarrow> float_ge_le L 0 1 v = None \<Longrightarrow>
   validate_SubGoal L (JObj kvs) = None"
  by (auto simp: with_default_def split: Option.bind_splits)

lemma meta_confidence_accepted:
  "float_ge_le L 0 1 v = Some b \<Longrightarrow> validate_IntentMeta L kvs = Some m \<Longrightarrow>
   validate_IntentMeta L (AList.update ''confidence'' v kvs) = Some (m\<lparr>confidence := b\<rparr>)"
  by (auto simp: validate_IntentMeta_def required_update with_default_update
      split: Option.bind_splits)

lemma subgoal_priority_accepted:
  "float_ge_le L 0 1 v = Some b \<Longrightarrow> validate_SubGoal L (JObj kvs) = Some g \<Longrightarrow>
   validate_SubGoal L (JObj (AList.update ''priority'' v kvs)) =
     Some (SubGoal (sg_id g) (goal g) (sg_status g) b (success_criteria g) (constraints g)
             (uncertainty g) (context_requirements g) (modality g) (dependencies g)
             (children g))"
  by (auto simp: required_update with_default_update children_update
      split: Option.bind_splits)

lemma subgoal_uncertainty_accepted:
  "float_ge_le L 0 1 v = Some b \<Longrightarrow> validate_SubGoal L (JObj kvs) = Some g \<Longrightarrow>
   validate_SubGoal L (JObj (AList.update ''uncertainty'' v kvs)) =
     Some (SubGoal (sg_id g) (goal g) (sg_status g) (priority g) (success_criteria g)
             (constraints g) b (context_requirements g) (modality g) (dependencies g)
             (children g))"
  by (auto simp: required_update with_default_update children_update
      split: Option.bind_splits)

subsection \<open>Enumerated fields\<close>

lemma latent_rejected:
  assumes "map_of kvs k = Some v" and "v \<notin> JStr ` set alts"
    and "(k, alts) \<in> {(''action_readiness'', [''exploring'', ''deciding'', ''executing'']),
                      (''ambiguity_level'', [''clear'', ''partial'', ''conflicting'']),
                      (''risk_sensitivity'', [''low'', ''medium'', ''high'']),
                      (''intent_scope'', [''single'', ''compound'', ''multi_step''])}"
  shows "validate_LatentStates kvs = None"
proof -
  have "required (str_pattern alts) kvs k = None"
    using assms(1,2) by (simp add: required_def str_pattern_None)
  with assms(3) show ?thesis
    by (auto simp: validate_LatentStates_def split: Option.bind_splits)
qed

lemma subgoal_status_rejected:
  assumes "map_of kvs ''status'' = Some v"
    and "v \<notin> JStr ` set [''pending'', ''active'', ''done'', ''blocked'', ''abandoned'',
                         ''background'']"
  shows "validate_SubGoal L (JObj kvs) = None"
proof -
  have "with_default ''pending''
          (str_pattern [''pending'', ''active'', ''done'', ''blocked'', ''abandoned'',
                        ''background'']) kvs ''status'' = None"
    using assms by (simp add: with_default_def str_pattern_None)
  then show ?thesis
    by (auto split: Option.bind_splits)
qed

lemma latent_accepted:
  assumes "validate_LatentStates kvs = Some ls"
  shows "ar \<in> set [''exploring'', ''deciding'', ''executing''] \<Longrightarrow>
         validate_LatentStates (AList.update ''action_readiness'' (JStr ar) kvs) =
           Some (ls\<lparr>action_readiness := ar\<rparr>)"
    and "al \<in> set [''clear'', ''partial'', ''conflicting''] \<Longrightarrow>
         validate_LatentStates (AList.update ''ambiguity_level'' (JStr al) kvs) =
           Some (ls\<lparr>ambiguity_level := al\<rparr>)"
    and "rs \<in> set [''low'', ''medium'', ''high''] \<Longrightarrow>
         validate_LatentStates (AList.update ''risk_sensitivity'' (JStr rs) kvs) =
           Some (ls\<lparr>risk_sensitivity := rs\<rparr>)"
    and "sc \<in> set [''single'', ''compound'', ''multi_step''] \<Longrightarrow>
         validate_LatentStates (AList.update ''intent_scope'' (JStr sc) kvs) =
           Some (ls\<lparr>intent_scope := sc\<rparr>)"
  using assms
  by (auto simp: validate_LatentStates_def required_update str_pattern_Some
      simp del: set_simps split: Option.bind_splits)

lemma subgoal_status_accepted:
  assumes "validate_SubGoal L (JObj kvs) = Some g"
    and "st \<in> set [''pending'', ''active'', ''done'', ''blocked'', ''abandoned'', ''background'']"
  shows "validate_SubGoal L (JObj (AList.update ''status'' (JStr st) kvs)) =
     Some (SubGoal (sg_id g) (goal g) st (priority g) (success_criteria g) (constraints g)
             (uncertainty g) (context_requirements g) (modality g) (dependencies g)
             (children g))"
  using assms
  by (auto simp: required_update with_default_update str_pattern_Some children_update
      simp del: set_simps split: Option.bind_splits)

subsection \<open>Defaults\<close>

lemma subgoal_defaults:
  assumes "validate_SubGoal L (JObj kvs) = Some g"
  shows "(case map_of kvs ''status'' of
            None \<Rightarrow> sg_status g = ''pending''
          | Some v \<Rightarrow>
              str_pattern [''pending'', ''active'', ''done'', ''blocked'', ''abandoned'',
                           ''background''] v = Some (sg_status g))"
    and "(case map_of kvs ''success_criteria'' of
            None \<Rightarrow> success_criteria g = []
          | Some v \<Rightarrow> list_of str_v v = Some (success_criteria g))"
    and "(case map_of kvs ''constraints'' of
            None \<Rightarrow> constraints g = []
          | Some v \<Rightarrow> list_of str_v v = Some (constraints g))"
    and "(case map_of kvs ''uncertainty'' of
            None \<Rightarrow> uncertainty g = Finite (1 / 2)
          | Some v \<Rightarrow> float_ge_le L 0 1 v = Some (uncertainty g))"
    and "(case map_of kvs ''context_requirements'' of
            None \<Rightarrow> context_requirements g = []
          | Some v \<Rightarrow> list_of str_v v = Some (context_requirements g))"
    and "(case map_of kvs ''modality'' of
            None \<Rightarrow> modality g = ''text''
          | Some v \<Rightarrow> str_v v = Some (modality g))"
    and "(case map_of kvs ''dependencies'' of
            None \<Rightarrow> dependencies g = []
          | Some v \<Rightarrow> list_of str_v v = Some (dependencies g))"
    and "(case map_of kvs ''children'' of
            None \<Rightarrow> children g = []
          | Some v \<Rightarrow> list_of (validate_SubGoal L) v = Some (children g))"
  using assms
  by (auto simp: list_of_def dest!: with_default_Some
      split: Option.bind_splits option.splits json.splits)

lemma meta_defaults:
  assumes "validate_IntentMeta L kvs = Some m"
  shows "(case map_of kvs ''source'' of
            None \<Rightarrow> source m = ''user_input''
          | Some v \<Rightarrow> str_v v = Some (source m))"
    and "(case map_of kvs ''negotiation_history'' of
            None \<Rightarrow> negotiation_history m = []
          | Some v \<Rightarrow> list_of str_v v = Some (negotiation_history m))"
  using assms
  by (auto simp: validate_IntentMeta_def dest!: with_default_Some
      split: Option.bind_splits option.splits)

lemma graph_defaults:
  assumes "validate_IntentGraph L kvs = Some G"
  shows "(case map_of kvs ''schema_version'' of
            None \<Rightarrow> schema_version G = ''0.1.0''
          | Some v \<Rightarrow> str_v v = Some (schema_version G))"
  using assms
  by (auto simp: validate_IntentGraph_def dest!: with_default_Some
      split: Option.bind_splits option.splits)

lemma parse_response_defaults:
  assumes "validate_ParseResponse L kvs = Some r"
  shows "(case map_of kvs ''session_id'' of
            None \<Rightarrow> pr_session_id r = None
          | Some v \<Rightarrow> optional str_v v = Some (pr_session_id r))"
  using assms
  by (auto simp: validate_ParseResponse_def dest!: with_default_Some
      split: Option.bind_splits option.splits)

lemma drift_defaults:
  assumes "validate_DriftReport L kvs = Some d"
  shows "(case map_of kvs ''drift_type'' of
            None \<Rightarrow> drift_type d = None
          | Some v \<Rightarrow> optional str_v v = Some (drift_type d))"
    and "(case map_of kvs ''severity'' of
            None \<Rightarrow> severity d = None
          | Some v \<Rightarrow> optional (float_v L) v = Some (severity d))"
    and "(case map_of kvs ''description'' of
            None \<Rightarrow> description d = None
          | Some v \<Rightarrow> optional str_v v = Some (description d))"
    and "(case map_of kvs ''previous_goal'' of
            None \<Rightarrow> previous_goal d = None
          | Some v \<Rightarrow> optional str_v v = Some (previous_goal d))"
    and "(case map_of kvs ''current_goal'' of
            None \<Rightarrow> current_goal d = None
          | Some v \<Rightarrow> optional str_v v = Some (current_goal d))"
  using assms
  by (auto simp: validate_DriftReport_def dest!: with_default_Some
      split: Option.bind_splits option.splits)

lemma usage_month_defaults:
  assumes "validate_UsageMonth L kvs = Some u"
  shows "(case map_of kvs ''total_latency_ms'' of
            None \<Rightarrow> total_latency_ms u = 0
          | Some v \<Rightarrow> int_v L v = Some (total_latency_ms u))"
  using assms
  by (auto simp: validate_UsageMonth_def dest!: with_default_Some
      split: Option.bind_splits option.splits)

lemma usage_info_defaults:
  assumes "validate_UsageInfo L kvs = Some u"
  shows "(case map_of kvs ''usage'' of
            None \<Rightarrow> usage u = []
          | Some v \<Rightarrow> list_of (nested (validate_UsageMonth L)) v = Some (usage u))"
  using assms
  by (auto simp: validate_UsageInfo_def dest!: with_default_Some
      split: Option.bind_splits option.splits)

subsection \<open>The models on the payloads of the test suite\<close>

lemmas sample_defs =
  SAMPLE_SUB_GOAL_def SAMPLE_LATENT_STATES_def SAMPLE_META_def SAMPLE_GRAPH_def
  SAMPLE_PARSE_RESPONSE_def SAMPLE_DRIFT_RESPONSE_def minimal_sub_goal_def minimal_meta_def
  minimal_graph_def minimal_parse_response_def minimal_drift_def minimal_usage_month_def
  minimal_usage_def

lemmas field_defs =
  required_def with_default_def str_v_def str_pattern_def float_v_def float_ge_le_def
  int_v_def bool_v_def list_of_def optional_def nested_def no_conversion_def

lemma latent_states_sample:
  "validate_LatentStates SAMPLE_LATENT_STATES =
     Some \<lparr>goal_intent = ''refactoring'', action_readiness = ''executing'',
           ambiguity_level = ''clear'', risk_sensitivity = ''medium'',
           intent_scope = ''compound''\<rparr>"
  by (simp add: validate_LatentStates_def sample_defs field_defs)

lemma sub_goal_minimal:
  "validate_SubGoal no_conversion (JObj minimal_sub_goal) =
     Some (SubGoal ''sg_001'' ''Add OAuth2 support'' ''pending'' (Finite 0) [] [] (Finite (1 / 2)) [] ''text''
             [] [])"
  by (simp add: sample_defs field_defs)

lemma meta_minimal:
  "validate_IntentMeta no_conversion minimal_meta =
     Some \<lparr>source = ''user_input'', confidence = Finite 0, negotiation_history = [],
           latent_states =
             \<lparr>goal_intent = ''refactoring'', action_readiness = ''executing'',
              ambiguity_level = ''clear'', risk_sensitivity = ''medium'',
              intent_scope = ''compound''\<rparr>\<rparr>"
  by (simp add: validate_IntentMeta_def validate_LatentStates_def sample_defs field_defs)

lemma graph_minimal:
  "validate_IntentGraph no_conversion minimal_graph =
     Some \<lparr>schema_version = ''0.1.0'', root_goal = ''Refactor auth module'',
           sub_goals =
             [SubGoal ''sg_001'' ''Add OAuth2 support'' ''pending'' (Finite 0) [] [] (Finite (1 / 2)) []
                ''text'' [] []],
           meta =
             \<lparr>source = ''user_input'', confidence = Finite 0, negotiation_history = [],
              latent_states =
                \<lparr>goal_intent = ''refactoring'', action_readiness = ''executing'',
                 ambiguity_level = ''clear'', risk_sensitivity = ''medium'',
                 intent_scope = ''compound''\<rparr>\<rparr>\<rparr>"
  by (simp add: validate_IntentGraph_def validate_IntentMeta_def validate_LatentStates_def
      sample_defs field_defs)

lemma graph_sample:
  "validate_IntentGraph no_conversion SAMPLE_GRAPH =
     Some \<lparr>schema_version = ''0.1.0'', root_goal = ''Refactor auth module'',
           sub_goals =
             [SubGoal ''sg_001'' ''Add OAuth2 support'' ''pending'' (Finite (9 / 10))
                [''OAuth2 flow works''] [] (Finite (3 / 10)) [] ''code'' [] []],
           meta =
             \<lparr>source = ''user_input'', confidence = Finite (17 / 20), negotiation_history = [],
              latent_states =
                \<lparr>goal_intent = ''refactoring'', action_readiness = ''executing'',
                 ambiguity_level = ''clear'', risk_sensitivity = ''medium'',
                 intent_scope = ''compound''\<rparr>\<rparr>\<rparr>"
  by (simp add: validate_IntentGraph_def validate_IntentMeta_def validate_LatentStates_def
      sample_defs field_defs)

lemma parse_response_minimal:
  "validate_ParseResponse no_conversion minimal_parse_response =
     Some \<lparr>graph =
             \<lparr>schema_version = ''0.1.0'', root_goal = ''Refactor auth module'',
              sub_goals =
                [SubGoal ''sg_001'' ''Add OAuth2 support'' ''pending'' (Finite 0) [] [] (Finite (1 / 2)) []
                   ''text'' [] []],
              meta =
                \<lparr>source = ''user_input'', confidence = Finite 0, negotiation_history = [],
                 latent_states =
                   \<lparr>goal_intent = ''refactoring'', action_readiness = ''executing'',
                    ambiguity_level = ''clear'', risk_sensitivity = ''medium'',
                    intent_scope = ''compound''\<rparr>\<rparr>\<rparr>,
           pr_session_id = None, request_id = ''req_abc123'', latency_ms = 150\<rparr>"
proof -
  have "map_of minimal_parse_response ''graph'' = Some (JObj minimal_graph)"
    "map_of minimal_parse_response ''session_id'' = None"
    "map_of minimal_parse_response ''request_id'' = Some (JStr ''req_abc123'')"
    "map_of minimal_parse_response ''latency_ms'' = Some (JInt 150)"
    by (simp_all add: minimal_parse_response_def)
  then show ?thesis
    by (simp add: validate_ParseResponse_def graph_minimal required_def with_default_def
        nested_def str_v_def int_v_def)
qed

lemma drift_minimal:
  "validate_DriftReport no_conversion minimal_drift =
     Some \<lparr>detected = False, drift_type = None, severity = None, description = None,
           previous_goal = None, current_goal = None\<rparr>"
  by (simp add: validate_DriftReport_def sample_defs field_defs)

lemma usage_month_minimal:
  "validate_UsageMonth no_conversion minimal_usage_month =
     Some \<lparr>month = ''2026-02-01'', parse_calls = 42, drift_checks = 0, session_creates = 5,
           total_latency_ms = 0\<rparr>"
  by (simp add: validate_UsageMonth_def sample_defs field_defs)

lemma usage_minimal:
  "validate_UsageInfo no_conversion minimal_usage =
     Some \<lparr>credits = \<lparr>used = 42, total = 100, remaining = 58\<rparr>, tier = ''free'',
           rate_limit = 100, usage = []\<rparr>"
  by (simp add: validate_UsageInfo_def validate_CreditInfo_def sample_defs field_defs)

subsection \<open>The claims about the models\<close>

text \<open>
  \<^bold>\<open>C3\<close>, as the code has it: for \<open>confidence\<close>, \<open>priority\<close> and \<open>uncertainty\<close>, the
  three fields declared with \<^verbatim>\<open>ge=0.0, le=1.0\<close>.
  \<^item> Where one of them is present as a float that is not a number of the closed interval
    from 0 to 1, or as an \<^verbatim>\<open>int\<close> below 0 or above 1, the payload is rejected.
  \<^item> A payload that validates still validates when one of them is set to a float of the
    interval, 0.0 and 1.0 included, or to the \<^verbatim>\<open>int\<close> 0 or 1, and the model then carries
    that number.
  \<open>DriftReport.severity\<close> is not among them: it is declared \<^verbatim>\<open>float | None\<close> with no bound
  (see the theorem after this one).
\<close>

theorem range_checked_fields:
  "(map_of bad ''confidence'' = Some (JFloat f) \<and> f \<in> {PosInf, NegInf} \<union> Finite ` {r. r < 0 \<or> 1 < r} \<longrightarrow>
      validate_IntentMeta L bad = None) \<and>
   (map_of bad ''priority'' = Some (JFloat f) \<and> f \<in> {PosInf, NegInf} \<union> Finite ` {r. r < 0 \<or> 1 < r} \<longrightarrow>
      validate_SubGoal L (JObj bad) = None) \<and>
   (map_of bad ''uncertainty'' = Some (JFloat f) \<and> f \<in> {PosInf, NegInf} \<union> Finite ` {r. r < 0 \<or> 1 < r} \<longrightarrow>
      validate_SubGoal L (JObj bad) = None) \<and>
   (map_of bad_int ''confidence'' = Some (JInt n) \<and> (n < 0 \<or> 1 < n) \<longrightarrow>
      validate_IntentMeta L bad_int = None) \<and>
   (map_of bad_int ''priority'' = Some (JInt n) \<and> (n < 0 \<or> 1 < n) \<longrightarrow>
      validate_SubGoal L (JObj bad_int) = None) \<and>
   (map_of bad_int ''uncertainty'' = Some (JInt n) \<and> (n < 0 \<or> 1 < n) \<longrightarrow>
      validate_SubGoal L (JObj bad_int) = None) \<and>
   (0 \<le> b \<and> b \<le> 1 \<and> validate_IntentMeta L mk = Some m \<longrightarrow>
      validate_IntentMeta L (AList.update ''confidence'' (JFloat (Finite b)) mk) =
        Some (m\<lparr>confidence := Finite b\<rparr>)) \<and>
   ((i = 0 \<or> i = 1) \<and> validate_IntentMeta L mk = Some m \<longrightarrow>
      validate_IntentMeta L (AList.update ''confidence'' (JInt i) mk) =
        Some (m\<lparr>confidence := Finite (of_int i)\<rparr>)) \<and>
   (0 \<le> b \<and> b \<le> 1 \<and> validate_SubGoal L (JObj sk) = Some g \<longrightarrow>
      validate_SubGoal L (JObj (AList.update ''priority'' (JFloat (Finite b)) sk)) =
        Some (SubGoal (sg_id g) (goal g) (sg_status g) (Finite b) (success_criteria g) (constraints g)
                (uncertainty g) (context_requirements g) (modality g) (dependencies g)
                (children g)) \<and>
      validate_SubGoal L (JObj (AList.update ''uncertainty'' (JFloat (Finite b)) sk)) =
        Some (SubGoal (sg_id g) (goal g) (sg_status g) (priority g) (success_criteria g)
                (constraints g) (Finite b) (context_requirements g) (modality g) (dependencies g)
                (children g))) \<and>
   ((i = 0 \<or> i = 1) \<and> validate_SubGoal L (JObj sk) = Some g \<longrightarrow>
      validate_SubGoal L (JObj (AList.update ''priority'' (JInt i) sk)) =
        Some (SubGoal (sg_id g) (goal g) (sg_status g) (Finite (of_int i)) (success_criteria g)
                (constraints g) (uncertainty g) (context_requirements g) (modality g)
                (dependencies g) (children g)) \<and>
      validate_SubGoal L (JObj (AList.update ''uncertainty'' (JInt i) sk)) =
        Some (SubGoal (sg_id g) (goal g) (sg_status g) (priority g) (success_criteria g)
                (constraints g) (Finite (of_int i)) (context_requirements g) (modality g)
                (dependencies g) (children g)))"
  apply (intro conjI impI)
  subgoal by (elim conjE, erule meta_confidence_rejected, erule float_outside_rejected)
  subgoal by (elim conjE, erule subgoal_priority_rejected, erule float_outside_rejected)
  subgoal by (elim conjE, erule subgoal_uncertainty_rejected, erule float_outside_rejected)
  subgoal by (elim conjE, erule meta_confidence_rejected, erule int_outside_rejected)
  subgoal by (elim conjE, erule subgoal_priority_rejected, erule int_outside_rejected)
  subgoal by (elim conjE, erule subgoal_uncertainty_rejected, erule int_outside_rejected)
  subgoal by (elim conjE, rule meta_confidence_accepted, erule (1) float_inside_accepted)
  subgoal by (elim conjE, rule meta_confidence_accepted, erule int_bound_accepted)
  subgoal by (elim conjE, rule subgoal_priority_accepted, erule (1) float_inside_accepted)
  subgoal by (elim conjE, rule subgoal_uncertainty_accepted, erule (1) float_inside_accepted)
  subgoal by (elim conjE, rule subgoal_priority_accepted, erule int_bound_accepted)
  subgoal by (elim conjE, rule subgoal_uncertainty_accepted, erule int_bound_accepted)
  done

text \<open>The claim as the spec states it fails on \<open>severity\<close>: the drift report of the test
  suite with \<open>severity\<close> 1.5, and with \<open>severity\<close> -0.5, validates.\<close>

theorem severity_out_of_range_validates:
  "init_model (validate_DriftReport no_conversion)
     (JObj (AList.update ''severity'' (JFloat (Finite (3 / 2))) SAMPLE_DRIFT_RESPONSE)) =
     Inr \<lparr>detected = True, drift_type = Some ''scope_creep'',
          severity = Some (Finite (3 / 2)),
          description = Some ''User added new requirement'',
          previous_goal = Some ''Refactor auth'',
          current_goal = Some ''Refactor auth + add payments''\<rparr> \<and>
   init_model (validate_DriftReport no_conversion)
     (JObj (AList.update ''severity'' (JFloat (Finite (- 1 / 2))) SAMPLE_DRIFT_RESPONSE)) =
     Inr \<lparr>detected = True, drift_type = Some ''scope_creep'',
          severity = Some (Finite (- 1 / 2)),
          description = Some ''User added new requirement'',
          previous_goal = Some ''Refactor auth'',
          current_goal = Some ''Refactor auth + add payments''\<rparr>"
  by (simp add: init_model_def validate_DriftReport_def sample_defs field_defs)

text \<open>Payloads with the three checked fields at 1.0001, and at the \<^verbatim>\<open>int\<close> 2, are
  rejected by both models; the minimal payloads, valid with \<open>confidence\<close> and \<open>priority\<close>
  at 0.0, stay valid at 1.0 and at the \<^verbatim>\<open>int\<close> 1.\<close>

theorem range_checked_fields_witness:
  "validate_IntentMeta no_conversion
     [(''confidence'', JFloat (Finite (10001 / 10000))),
      (''priority'', JFloat (Finite (10001 / 10000))),
      (''uncertainty'', JFloat (Finite (10001 / 10000)))] = None \<and>
   validate_SubGoal no_conversion
     (JObj [(''confidence'', JFloat (Finite (10001 / 10000))),
            (''priority'', JFloat (Finite (10001 / 10000))),
            (''uncertainty'', JFloat (Finite (10001 / 10000)))]) = None \<and>
   validate_IntentMeta no_conversion
     [(''confidence'', JInt 2), (''priority'', JInt 2), (''uncertainty'', JInt 2)] = None \<and>
   validate_SubGoal no_conversion
     (JObj [(''confidence'', JInt 2), (''priority'', JInt 2), (''uncertainty'', JInt 2)]) =
     None \<and>
   validate_IntentMeta no_conversion minimal_meta =
     Some \<lparr>source = ''user_input'', confidence = Finite 0, negotiation_history = [],
           latent_states =
             \<lparr>goal_intent = ''refactoring'', action_readiness = ''executing'',
              ambiguity_level = ''clear'', risk_sensitivity = ''medium'',
              intent_scope = ''compound''\<rparr>\<rparr> \<and>
   validate_IntentMeta no_conversion
     (AList.update ''confidence'' (JFloat (Finite 1)) minimal_meta) =
     Some \<lparr>source = ''user_input'', confidence = Finite 1, negotiation_history = [],
           latent_states =
             \<lparr>goal_intent = ''refactoring'', action_readiness = ''executing'',
              ambiguity_level = ''clear'', risk_sensitivity = ''medium'',
              intent_scope = ''compound''\<rparr>\<rparr> \<and>
   validate_IntentMeta no_conversion (AList.update ''confidence'' (JInt 1) minimal_meta) =
     Some \<lparr>source = ''user_input'', confidence = Finite 1, negotiation_history = [],
           latent_states =
             \<lparr>goal_intent = ''refactoring'', action_readiness = ''executing'',
              ambiguity_level = ''clear'', risk_sensitivity = ''medium'',
              intent_scope = ''compound''\<rparr>\<rparr> \<and>
   validate_SubGoal no_conversion (JObj minimal_sub_goal) =
     Some (SubGoal ''sg_001'' ''Add OAuth2 support'' ''pending'' (Finite 0) [] [] (Finite (1 / 2)) [] ''text''
             [] []) \<and>
   validate_SubGoal no_conversion
     (JObj (AList.update ''priority'' (JFloat (Finite 1)) minimal_sub_goal)) =
     Some (SubGoal ''sg_001'' ''Add OAuth2 support'' ''pending'' (Finite 1) [] [] (Finite (1 / 2)) [] ''text''
             [] []) \<and>
   validate_SubGoal no_conversion
     (JObj (AList.update ''uncertainty'' (JFloat (Finite 1)) minimal_sub_goal)) =
     Some (SubGoal ''sg_001'' ''Add OAuth2 support'' ''pending'' (Finite 0) [] [] (Finite 1) [] ''text''
             [] []) \<and>
   validate_SubGoal no_conversion
     (JObj (AList.update ''priority'' (JInt 1) minimal_sub_goal)) =
     Some (SubGoal ''sg_001'' ''Add OAuth2 support'' ''pending'' (Finite 1) [] [] (Finite (1 / 2)) [] ''text''
             [] [])"
proof -
  let ?bad = "[(''confidence'', JFloat (Finite (10001 / 10000))),
               (''priority'', JFloat (Finite (10001 / 10000))),
               (''uncertainty'', JFloat (Finite (10001 / 10000)))]"
  let ?bad_int = "[(''confidence'', JInt 2), (''priority'', JInt 2), (''uncertainty'', JInt 2)]"
  have outside:
    "Finite (10001 / 10000) \<in> {PosInf, NegInf} \<union> Finite ` {r. r < 0 \<or> 1 < r}"
    by (rule UnI2, rule imageI) simp
  have bad: "map_of ?bad ''confidence'' = Some (JFloat (Finite (10001 / 10000)))"
    "map_of ?bad ''priority'' = Some (JFloat (Finite (10001 / 10000)))"
    "map_of ?bad_int ''confidence'' = Some (JInt 2)"
    "map_of ?bad_int ''priority'' = Some (JInt 2)"
    by simp_all
  note inst = range_checked_fields
    [of ?bad "Finite (10001 / 10000)" no_conversion ?bad_int 2 1 minimal_meta
        "\<lparr>source = ''user_input'', confidence = Finite 0, negotiation_history = [],
          latent_states =
            \<lparr>goal_intent = ''refactoring'', action_readiness = ''executing'',
             ambiguity_level = ''clear'', risk_sensitivity = ''medium'',
             intent_scope = ''compound''\<rparr>\<rparr>"
        1 minimal_sub_goal
        "SubGoal ''sg_001'' ''Add OAuth2 support'' ''pending'' (Finite 0) [] [] (Finite (1 / 2)) [] ''text'' [] []"]
  have "validate_IntentMeta no_conversion ?bad = None"
    and "validate_SubGoal no_conversion (JObj ?bad) = None"
    and "validate_IntentMeta no_conversion ?bad_int = None"
    and "validate_SubGoal no_conversion (JObj ?bad_int) = None"
    using inst bad outside by (simp_all del: validate_SubGoal.simps)
  moreover have "validate_IntentMeta no_conversion
       (AList.update ''confidence'' (JFloat (Finite 1)) minimal_meta) =
     Some \<lparr>source = ''user_input'', confidence = Finite 1, negotiation_history = [],
           latent_states =
             \<lparr>goal_intent = ''refactoring'', action_readiness = ''executing'',
              ambiguity_level = ''clear'', risk_sensitivity = ''medium'',
              intent_scope = ''compound''\<rparr>\<rparr>"
    and "validate_IntentMeta no_conversion
       (AList.update ''confidence'' (JInt 1) minimal_meta) =
     Some \<lparr>source = ''user_input'', confidence = Finite 1, negotiation_history = [],
           latent_states =
             \<lparr>goal_intent = ''refactoring'', action_readiness = ''executing'',
              ambiguity_level = ''clear'', risk_sensitivity = ''medium'',
              intent_scope = ''compound''\<rparr>\<rparr>"
    using inst meta_minimal by simp_all
  moreover have "validate_SubGoal no_conversion
       (JObj (AList.update ''priority'' (JFloat (Finite 1)) minimal_sub_goal)) =
     Some (SubGoal ''sg_001'' ''Add OAuth2 support'' ''pending'' (Finite 1) [] [] (Finite (1 / 2)) [] ''text''
             [] [])"
    and "validate_SubGoal no_conversion
       (JObj (AList.update ''uncertainty'' (JFloat (Finite 1)) minimal_sub_goal)) =
     Some (SubGoal ''sg_001'' ''Add OAuth2 support'' ''pending'' (Finite 0) [] [] (Finite 1) [] ''text''
             [] [])"
    and "validate_SubGoal no_conversion
       (JObj (AList.update ''priority'' (JInt 1) minimal_sub_goal)) =
     Some (SubGoal ''sg_001'' ''Add OAuth2 support'' ''pending'' (Finite 1) [] [] (Finite (1 / 2)) [] ''text''
             [] [])"
    using inst sub_goal_minimal by (simp_all del: validate_SubGoal.simps)
  ultimately show ?thesis
    using meta_minimal sub_goal_minimal by simp
qed

text \<open>
  \<^bold>\<open>C6.\<close> Enumerated fields and defaults.
  \<^item> A payload in which \<open>action_readiness\<close>, \<open>ambiguity_level\<close>, \<open>risk_sensitivity\<close>,
    \<open>intent_scope\<close> (of \<open>LatentStates\<close>) or \<open>status\<close> (of \<open>SubGoal\<close>) is present with a
    value that is not one of the strings of its fixed set is rejected.
  \<^item> A payload that validates still validates when one of these fields is set to a
    member of its set, and the model then carries that member.
  \<^item> For every field declared with a default, in every model: when the payload
    validates, a field that is absent has the default, and a field that is present has
    passed its own validator and has the validated value. So a present, invalid value is
    never replaced by the default: such a payload does not validate.
\<close>

theorem enumerated_and_default_fields:
  "(map_of bad ''action_readiness'' = Some v \<and>
      v \<notin> JStr ` set [''exploring'', ''deciding'', ''executing''] \<longrightarrow>
      validate_LatentStates bad = None) \<and>
   (map_of bad ''ambiguity_level'' = Some v \<and>
      v \<notin> JStr ` set [''clear'', ''partial'', ''conflicting''] \<longrightarrow>
      validate_LatentStates bad = None) \<and>
   (map_of bad ''risk_sensitivity'' = Some v \<and>
      v \<notin> JStr ` set [''low'', ''medium'', ''high''] \<longrightarrow>
      validate_LatentStates bad = None) \<and>
   (map_of bad ''intent_scope'' = Some v \<and>
      v \<notin> JStr ` set [''single'', ''compound'', ''multi_step''] \<longrightarrow>
      validate_LatentStates bad = None) \<and>
   (map_of bad ''status'' = Some v \<and>
      v \<notin> JStr ` set [''pending'', ''active'', ''done'', ''blocked'', ''abandoned'',
                        ''background''] \<longrightarrow>
      validate_SubGoal L (JObj bad) = None) \<and>
   (validate_LatentStates lk = Some ls \<longrightarrow>
      (ar \<in> set [''exploring'', ''deciding'', ''executing''] \<longrightarrow>
         validate_LatentStates (AList.update ''action_readiness'' (JStr ar) lk) =
           Some (ls\<lparr>action_readiness := ar\<rparr>)) \<and>
      (al \<in> set [''clear'', ''partial'', ''conflicting''] \<longrightarrow>
         validate_LatentStates (AList.update ''ambiguity_level'' (JStr al) lk) =
           Some (ls\<lparr>ambiguity_level := al\<rparr>)) \<and>
      (rs \<in> set [''low'', ''medium'', ''high''] \<longrightarrow>
         validate_LatentStates (AList.update ''risk_sensitivity'' (JStr rs) lk) =
           Some (ls\<lparr>risk_sensitivity := rs\<rparr>)) \<and>
      (sc \<in> set [''single'', ''compound'', ''multi_step''] \<longrightarrow>
         validate_LatentStates (AList.update ''intent_scope'' (JStr sc) lk) =
           Some (ls\<lparr>intent_scope := sc\<rparr>))) \<and>
   (validate_SubGoal L (JObj sk) = Some g \<longrightarrow>
      (st \<in> set [''pending'', ''active'', ''done'', ''blocked'', ''abandoned'',
                  ''background''] \<longrightarrow>
         validate_SubGoal L (JObj (AList.update ''status'' (JStr st) sk)) =
           Some (SubGoal (sg_id g) (goal g) st (priority g) (success_criteria g)
                   (constraints g) (uncertainty g) (context_requirements g) (modality g)
                   (dependencies g) (children g))) \<and>
      (case map_of sk ''status'' of
         None \<Rightarrow> sg_status g = ''pending''
       | Some x \<Rightarrow>
           str_pattern [''pending'', ''active'', ''done'', ''blocked'', ''abandoned'',
                        ''background''] x = Some (sg_status g)) \<and>
      (case map_of sk ''success_criteria'' of
         None \<Rightarrow> success_criteria g = []
       | Some x \<Rightarrow> list_of str_v x = Some (success_criteria g)) \<and>
      (case map_of sk ''constraints'' of
         None \<Rightarrow> constraints g = []
       | Some x \<Rightarrow> list_of str_v x = Some (constraints g)) \<and>
      (case map_of sk ''uncertainty'' of
         None \<Rightarrow> uncertainty g = Finite (1 / 2)
       | Some x \<Rightarrow> float_ge_le L 0 1 x = Some (uncertainty g)) \<and>
      (case map_of sk ''context_requirements'' of
         None \<Rightarrow> context_requirements g = []
       | Some x \<Rightarrow> list_of str_v x = Some (context_requirements g)) \<and>
      (case map_of sk ''modality'' of
         None \<Rightarrow> modality g = ''text''
       | Some x \<Rightarrow> str_v x = Some (modality g)) \<and>
      (case map_of sk ''dependencies'' of
         None \<Rightarrow> dependencies g = []
       | Some x \<Rightarrow> list_of str_v x = Some (dependencies g)) \<and>
      (case map_of sk ''children'' of
         None \<Rightarrow> children g = []
       | Some x \<Rightarrow> list_of (validate_SubGoal L) x = Some (children g))) \<and>
   (validate_IntentMeta L mk = Some m \<longrightarrow>
      (case map_of mk ''source'' of
         None \<Rightarrow> source m = ''user_input''
       | Some x \<Rightarrow> str_v x = Some (source m)) \<and>
      (case map_of mk ''negotiation_history'' of
         None \<Rightarrow> negotiation_history m = []
       | Some x \<Rightarrow> list_of str_v x = Some (negotiation_history m))) \<and>
   (validate_IntentGraph L gk = Some G \<longrightarrow>
      (case map_of gk ''schema_version'' of
         None \<Rightarrow> schema_version G = ''0.1.0''
       | Some x \<Rightarrow> str_v x = Some (schema_version G))) \<and>
   (validate_ParseResponse L pk = Some r \<longrightarrow>
      (case map_of pk ''session_id'' of
         None \<Rightarrow> pr_session_id r = None
       | Some x \<Rightarrow> optional str_v x = Some (pr_session_id r))) \<and>
   (validate_DriftReport L dk = Some d \<longrightarrow>
      (case map_of dk ''drift_type'' of
         None \<Rightarrow> drift_type d = None
       | Some x \<Rightarrow> optional str_v x = Some (drift_type d)) \<and>
      (case map_of dk ''severity'' of
         None \<Rightarrow> severity d = None
       | Some x \<Rightarrow> optional (float_v L) x = Some (severity d)) \<and>
      (case map_of dk ''description'' of
         None \<Rightarrow> description d = None
       | Some x \<Rightarrow> optional str_v x = Some (description d)) \<and>
      (case map_of dk ''previous_goal'' of
         None \<Rightarrow> previous_goal d = None
       | Some x \<Rightarrow> optional str_v x = Some (previous_goal d)) \<and>
      (case map_of dk ''current_goal'' of
         None \<Rightarrow> current_goal d = None
       | Some x \<Rightarrow> optional str_v x = Some (current_goal d))) \<and>
   (validate_UsageMonth L uk = Some um \<longrightarrow>
      (case map_of uk ''total_latency_ms'' of
         None \<Rightarrow> total_latency_ms um = 0
       | Some x \<Rightarrow> int_v L x = Some (total_latency_ms um))) \<and>
   (validate_UsageInfo L ik = Some ui \<longrightarrow>
      (case map_of ik ''usage'' of
         None \<Rightarrow> usage ui = []
       | Some x \<Rightarrow> list_of (nested (validate_UsageMonth L)) x = Some (usage ui)))"
  apply (intro conjI impI)
  subgoal by (elim conjE, erule (1) latent_rejected, simp)
  subgoal by (elim conjE, erule (1) latent_rejected, simp)
  subgoal by (elim conjE, erule (1) latent_rejected, simp)
  subgoal by (elim conjE, erule (1) latent_rejected, simp)
  subgoal by (elim conjE, erule (1) subgoal_status_rejected)
  subgoal by (erule (1) latent_accepted(1))
  subgoal by (erule (1) latent_accepted(2))
  subgoal by (erule (1) latent_accepted(3))
  subgoal by (erule (1) latent_accepted(4))
  subgoal by (erule (1) subgoal_status_accepted)
  subgoal by (erule subgoal_defaults(1))
  subgoal by (erule subgoal_defaults(2))
  subgoal by (erule subgoal_defaults(3))
  subgoal by (erule subgoal_defaults(4))
  subgoal by (erule subgoal_defaults(5))
  subgoal by (erule subgoal_defaults(6))
  subgoal by (erule subgoal_defaults(7))
  subgoal by (erule subgoal_defaults(8))
  subgoal by (erule meta_defaults(1))
  subgoal by (erule meta_defaults(2))
  subgoal by (erule graph_defaults)
  subgoal by (erule parse_response_defaults)
  subgoal by (erule drift_defaults(1))
  subgoal by (erule drift_defaults(2))
  subgoal by (erule drift_defaults(3))
  subgoal by (erule drift_defaults(4))
  subgoal by (erule drift_defaults(5))
  subgoal by (erule usage_month_defaults)
  subgoal by (erule usage_info_defaults)
  done

text \<open>The latent states of the test suite (\<open>action_readiness\<close> is \<open>executing\<close>) validate,
  and still do with \<open>deciding\<close>; a payload with \<open>pondering\<close> in the enumerated fields is
  rejected; the minimal payloads validate and get the declared defaults.\<close>

theorem enumerated_and_default_fields_witness:
  "validate_LatentStates
     [(''action_readiness'', JStr ''pondering''), (''ambiguity_level'', JStr ''pondering''),
      (''risk_sensitivity'', JStr ''pondering''), (''intent_scope'', JStr ''pondering''),
      (''status'', JStr ''pondering'')] = None \<and>
   validate_SubGoal no_conversion
     (JObj [(''action_readiness'', JStr ''pondering''), (''ambiguity_level'', JStr ''pondering''),
            (''risk_sensitivity'', JStr ''pondering''), (''intent_scope'', JStr ''pondering''),
            (''status'', JStr ''pondering'')]) = None \<and>
   validate_LatentStates SAMPLE_LATENT_STATES =
     Some \<lparr>goal_intent = ''refactoring'', action_readiness = ''executing'',
           ambiguity_level = ''clear'', risk_sensitivity = ''medium'',
           intent_scope = ''compound''\<rparr> \<and>
   validate_LatentStates
     (AList.update ''action_readiness'' (JStr ''deciding'') SAMPLE_LATENT_STATES) =
     Some \<lparr>goal_intent = ''refactoring'', action_readiness = ''deciding'',
           ambiguity_level = ''clear'', risk_sensitivity = ''medium'',
           intent_scope = ''compound''\<rparr> \<and>
   validate_SubGoal no_conversion (JObj minimal_sub_goal) =
     Some (SubGoal ''sg_001'' ''Add OAuth2 support'' ''pending'' (Finite 0) [] [] (Finite (1 / 2)) [] ''text''
             [] []) \<and>
   validate_SubGoal no_conversion
     (JObj (AList.update ''status'' (JStr ''active'') minimal_sub_goal)) =
     Some (SubGoal ''sg_001'' ''Add OAuth2 support'' ''active'' (Finite 0) [] [] (Finite (1 / 2)) [] ''text''
             [] []) \<and>
   map_option source (validate_IntentMeta no_conversion minimal_meta) = Some ''user_input'' \<and>
   map_option schema_version (validate_IntentGraph no_conversion minimal_graph) =
     Some ''0.1.0'' \<and>
   map_option pr_session_id (validate_ParseResponse no_conversion minimal_parse_response) =
     Some None \<and>
   map_option severity (validate_DriftReport no_conversion minimal_drift) = Some None \<and>
   map_option total_latency_ms (validate_UsageMonth no_conversion minimal_usage_month) =
     Some 0 \<and>
   map_option usage (validate_UsageInfo no_conversion minimal_usage) = Some []"
proof -
  let ?bad = "[(''action_readiness'', JStr ''pondering''),
               (''ambiguity_level'', JStr ''pondering''),
               (''risk_sensitivity'', JStr ''pondering''), (''intent_scope'', JStr ''pondering''),
               (''status'', JStr ''pondering'')]"
  note inst = enumerated_and_default_fields
    [of ?bad "JStr ''pondering''" no_conversion SAMPLE_LATENT_STATES
        "\<lparr>goal_intent = ''refactoring'', action_readiness = ''executing'',
          ambiguity_level = ''clear'', risk_sensitivity = ''medium'',
          intent_scope = ''compound''\<rparr>"
        "''deciding''" "''partial''" "''high''" "''single''"
        minimal_sub_goal
        "SubGoal ''sg_001'' ''Add OAuth2 support'' ''pending'' (Finite 0) [] [] (Finite (1 / 2)) [] ''text'' [] []"
        "''active''"
        minimal_meta "the (validate_IntentMeta no_conversion minimal_meta)"
        minimal_graph "the (validate_IntentGraph no_conversion minimal_graph)"
        minimal_parse_response
        "the (validate_ParseResponse no_conversion minimal_parse_response)"
        minimal_drift "the (validate_DriftReport no_conversion minimal_drift)"
        minimal_usage_month "the (validate_UsageMonth no_conversion minimal_usage_month)"
        minimal_usage "the (validate_UsageInfo no_conversion minimal_usage)"]
  have "validate_LatentStates ?bad = None"
    and "validate_SubGoal no_conversion (JObj ?bad) = None"
    using inst by simp_all
  moreover have "validate_LatentStates
       (AList.update ''action_readiness'' (JStr ''deciding'') SAMPLE_LATENT_STATES) =
     Some \<lparr>goal_intent = ''refactoring'', action_readiness = ''deciding'',
           ambiguity_level = ''clear'', risk_sensitivity = ''medium'',
           intent_scope = ''compound''\<rparr>"
    using inst latent_states_sample by simp
  moreover have "validate_SubGoal no_conversion
       (JObj (AList.update ''status'' (JStr ''active'') minimal_sub_goal)) =
     Some (SubGoal ''sg_001'' ''Add OAuth2 support'' ''active'' (Finite 0) [] [] (Finite (1 / 2)) [] ''text''
             [] [])"
    using inst sub_goal_minimal by (simp del: validate_SubGoal.simps)
  moreover have
    "map_option source (validate_IntentMeta no_conversion minimal_meta) = Some ''user_input''"
    "map_option schema_version (validate_IntentGraph no_conversion minimal_graph) =
       Some ''0.1.0''"
    "map_option pr_session_id (validate_ParseResponse no_conversion minimal_parse_response) =
       Some None"
    "map_option severity (validate_DriftReport no_conversion minimal_drift) = Some None"
    "map_option total_latency_ms (validate_UsageMonth no_conversion minimal_usage_month) =
       Some 0"
    "map_option usage (validate_UsageInfo no_conversion minimal_usage) = Some []"
    by (simp_all add: meta_minimal graph_minimal parse_response_minimal drift_minimal
        usage_month_minimal usage_minimal)
  ultimately show ?thesis
    using latent_states_sample sub_goal_minimal by simp
qed

section \<open>Decoding the graph of a response\<close>

text \<open>
  \<^bold>\<open>C5.\<close> On a success response, the one-shot parse, the session parse and
  \<open>get_graph\<close>, of both clients, decode a body that carries the graph's fields under a
  \<open>graph\<close> key and a body that is the object of those fields itself (so that it has no
  \<open>graph\<close> key of its own) to the same result: the \<open>IntentGraph\<close> built from the fields,
  or the validation failure of those fields.
\<close>

theorem graph_either_shape:
  assumes "200 \<le> s" and "s \<le> 299"
    and "map_of wrapped ''graph'' = Some (JObj flds)"
    and "map_of flds ''graph'' = None"
  shows "(let nested_body = (\<lambda>rq. Inr \<lparr>status_code = s, content = Some (JObj wrapped)\<rparr>);
              bare_body = (\<lambda>rq. Inr \<lparr>status_code = s, content = Some (JObj flds)\<rparr>);
              decoded = init_model (validate_IntentGraph L) (JObj flds)
          in snd (parse L nested_body msg p) = decoded \<and>
             snd (parse L bare_body msg p) = decoded \<and>
             snd (session_parse L nested_body sess msg p) = decoded \<and>
             snd (session_parse L bare_body sess msg p) = decoded \<and>
             snd (session_get_graph L nested_body sess) = decoded \<and>
             snd (session_get_graph L bare_body sess) = decoded \<and>
             snd (async_parse L nested_body msg p) = decoded \<and>
             snd (async_parse L bare_body msg p) = decoded \<and>
             snd (async_session_parse L nested_body asess msg p) = decoded \<and>
             snd (async_session_parse L bare_body asess msg p) = decoded \<and>
             snd (async_session_get_graph L nested_body asess) = decoded \<and>
             snd (async_session_get_graph L bare_body asess) = decoded)"
  using assms
  by (simp add: client_defs async_defs is_success_def res_json_def dict_get_def Let_def)

text \<open>The parse response of the test suite and its bare graph, answered with status 200.\<close>

theorem graph_either_shape_witness:
  "snd (parse no_conversion
          (\<lambda>rq. Inr \<lparr>status_code = 200, content = Some (JObj SAMPLE_PARSE_RESPONSE)\<rparr>)
          ''Refactor auth module'' None) =
     Inr \<lparr>schema_version = ''0.1.0'', root_goal = ''Refactor auth module'',
          sub_goals =
            [SubGoal ''sg_001'' ''Add OAuth2 support'' ''pending'' (Finite (9 / 10))
               [''OAuth2 flow works''] [] (Finite (3 / 10)) [] ''code'' [] []],
          meta =
            \<lparr>source = ''user_input'', confidence = Finite (17 / 20), negotiation_history = [],
             latent_states =
               \<lparr>goal_intent = ''refactoring'', action_readiness = ''executing'',
                ambiguity_level = ''clear'', risk_sensitivity = ''medium'',
                intent_scope = ''compound''\<rparr>\<rparr>\<rparr> \<and>
   snd (parse no_conversion
          (\<lambda>rq. Inr \<lparr>status_code = 200, content = Some (JObj SAMPLE_GRAPH)\<rparr>)
          ''Refactor auth module'' None) =
   snd (parse no_conversion
          (\<lambda>rq. Inr \<lparr>status_code = 200, content = Some (JObj SAMPLE_PARSE_RESPONSE)\<rparr>)
          ''Refactor auth module'' None) \<and>
   snd (session_get_graph no_conversion
          (\<lambda>rq. Inr \<lparr>status_code = 200, content = Some (JObj SAMPLE_GRAPH)\<rparr>)
          (Session (JStr ''sess_test123''))) =
   snd (session_get_graph no_conversion
          (\<lambda>rq. Inr \<lparr>status_code = 200, content = Some (JObj SAMPLE_PARSE_RESPONSE)\<rparr>)
          (Session (JStr ''sess_test123'')))"
proof -
  have shape: "map_of SAMPLE_PARSE_RESPONSE ''graph'' = Some (JObj SAMPLE_GRAPH)"
    "map_of SAMPLE_GRAPH ''graph'' = None"
    by (simp_all add: SAMPLE_PARSE_RESPONSE_def SAMPLE_GRAPH_def)
  have code: "(200::int) \<le> 200" "(200::int) \<le> 299"
    by simp_all
  show ?thesis
    using graph_either_shape
      [OF code shape, of no_conversion "''Refactor auth module''" None
         "Session (JStr ''sess_test123'')"]
    by (simp add: Let_def init_model_def graph_sample)
qed

section \<open>Importing the package\<close>

text \<open>
  \<^bold>\<open>C10.\<close> Running \<^verbatim>\<open>__init__.py\<close> fails: its imports from \<^verbatim>\<open>async_client\<close>, \<^verbatim>\<open>client\<close>,
  \<^verbatim>\<open>errors\<close> and \<^verbatim>\<open>session\<close> succeed, and \<^verbatim>\<open>from .types import ...\<close> raises \<open>ImportError\<close> at
  \<open>DriftEvent\<close>, the first of the three names (\<open>DriftEvent\<close>, \<open>GraphTurn\<close>,
  \<open>SessionHistoryResponse\<close>) that \<^verbatim>\<open>types.py\<close> does not bind. Four levels of nesting are
  what the package needs; the result is the same for every larger bound.
\<close>

theorem package_import_fails:
  "exec_module (Suc (Suc (Suc (Suc n)))) ''__init__'' = Some (Inl (ImportError ''DriftEvent''))
   \<and> exec_module (Suc n) ''types'' =
       Some (Inr [''annotations'', ''BaseModel'', ''Field'', ''LatentStates'', ''IntentMeta'',
                  ''SubGoal'', ''IntentGraph'', ''ParseResponse'', ''DriftReport'',
                  ''SessionInfo'', ''CreditInfo'', ''UsageMonth'', ''UsageInfo''])
   \<and> filter (\<lambda>x. x \<notin> set [''annotations'', ''BaseModel'', ''Field'', ''LatentStates'',
                            ''IntentMeta'', ''SubGoal'', ''IntentGraph'', ''ParseResponse'',
                            ''DriftReport'', ''SessionInfo'', ''CreditInfo'', ''UsageMonth'',
                            ''UsageInfo''])
       [''CreditInfo'', ''DriftEvent'', ''DriftReport'', ''GraphTurn'', ''IntentGraph'',
        ''IntentMeta'', ''LatentStates'', ''ParseResponse'', ''SessionHistoryResponse'',
        ''SessionInfo'', ''SubGoal'', ''UsageInfo'', ''UsageMonth'']
     = [''DriftEvent'', ''GraphTurn'', ''SessionHistoryResponse'']"
  by (simp add: xeroml_package_def init_py_def async_client_py_def client_py_def errors_py_def
      session_py_def types_py_def)

end
